theory Spec2Isabelle
  imports Main "HOL-Library.Word" "HOL-Library.AList"
begin

unbundle bit_operations_syntax

section \<open>JavaScript strings and numbers\<close>

text \<open>
  A JavaScript string is modelled as a \<^typ>\<open>string\<close>: a list of characters whose code is
  in 0..255. This is the alphabet of a SIP2 frame (the client decodes the socket as
  ISO-8859-1). \<open>charCodeAt\<close> is \<^term>\<open>of_char\<close>. A \<open>number\<close> that holds a sequence number or
  an item index is an \<^typ>\<open>int\<close>.
\<close>

datatype error = InvalidSequence | MalformedTrailer | UnexpectedResponseCode | MasterKeyMissing

definition substring :: "string \<Rightarrow> nat \<Rightarrow> nat \<Rightarrow> string" where
  \<comment> \<open>\<open>s.substring(a, b)\<close> for \<open>a \<le> b\<close>; both ends are clamped to the length\<close>
  "substring s a b = take (b - a) (drop a s)"

definition charAt :: "string \<Rightarrow> nat \<Rightarrow> char option" where
  \<comment> \<open>\<open>s[i]\<close>: \<open>undefined\<close> past the end\<close>
  "charAt s i = (if i < length s then Some (s ! i) else None)"

definition padStart :: "string \<Rightarrow> nat \<Rightarrow> char \<Rightarrow> string" where
  "padStart s n c = replicate (n - length s) c @ s"

definition padEnd :: "string \<Rightarrow> nat \<Rightarrow> char \<Rightarrow> string" where
  "padEnd s n c = s @ replicate (n - length s) c"

definition startsWith :: "string \<Rightarrow> string \<Rightarrow> bool" where
  "startsWith s p = (take (length p) s = p)"

definition digitChar :: "nat \<Rightarrow> char" where
  \<comment> \<open>the digit of \<open>Number.prototype.toString(radix)\<close>: \<open>0-9\<close> then \<open>a-z\<close>\<close>
  "digitChar d = ''0123456789abcdefghijklmnopqrstuvwxyz'' ! d"

function toStringRadix :: "nat \<Rightarrow> nat \<Rightarrow> string" where
  \<comment> \<open>\<open>n.toString(r)\<close> of a natural number, for a radix in 2..36\<close>
  "toStringRadix r n =
     (if r < 2 \<or> n < r then [digitChar n] else toStringRadix r (n div r) @ [digitChar (n mod r)])"
  by pat_completeness auto
termination
  by (relation "measure (\<lambda>(r, n). n)") auto

declare toStringRadix.simps [simp del]

definition numberToString :: "int \<Rightarrow> string" where
  \<comment> \<open>\<open>String(n)\<close> and \<open>n.toString()\<close> of an integer\<close>
  "numberToString n =
     (if n < 0 then CHR ''-'' # toStringRadix 10 (nat (- n)) else toStringRadix 10 (nat n))"

definition isUpperAscii :: "char \<Rightarrow> bool" where
  \<comment> \<open>the character class \<open>[A-Z]\<close>\<close>
  "isUpperAscii c = (65 \<le> (of_char c :: nat) \<and> (of_char c :: nat) \<le> 90)"

definition isDigit :: "char \<Rightarrow> bool" where
  \<comment> \<open>the character class \<open>\d\<close>\<close>
  "isDigit c = (48 \<le> (of_char c :: nat) \<and> (of_char c :: nat) \<le> 57)"

definition isHexDigit :: "char \<Rightarrow> bool" where
  \<comment> \<open>the character class \<open>[0-9A-Fa-f]\<close>\<close>
  "isHexDigit c = (isDigit c
     \<or> (65 \<le> (of_char c :: nat) \<and> (of_char c :: nat) \<le> 70)
     \<or> (97 \<le> (of_char c :: nat) \<and> (of_char c :: nat) \<le> 102))"

definition upperChar :: "char \<Rightarrow> char" where
  "upperChar c =
     (case map_of (zip ''abcdefghijklmnopqrstuvwxyz'' ''ABCDEFGHIJKLMNOPQRSTUVWXYZ'') c of
        Some u \<Rightarrow> u
      | None \<Rightarrow> c)"

definition toUpperCase :: "string \<Rightarrow> string" where
  \<comment> \<open>\<open>toUpperCase\<close> on the ASCII letters; the source applies it to hex digits only\<close>
  "toUpperCase s = map upperChar s"

section \<open>Checksum codec (checksum.ts)\<close>

definition calculateChecksum :: "string \<Rightarrow> string" where
  "calculateChecksum message =
     (let sum = foldl (\<lambda>sum c. sum + of_char c) (0::nat) message;
          checksum = (- (word_of_nat sum :: 32 word)) AND 0xFFFF
      in padStart (toUpperCase (toStringRadix 16 (unat checksum))) 4 CHR ''0'')"

definition appendChecksum :: "string \<Rightarrow> int \<Rightarrow> error + string" where
  \<comment> \<open>\<open>seqNum\<close> defaults to 0 when the caller omits it\<close>
  "appendChecksum message seqNum =
     (if seqNum > 9 then Inl InvalidSequence
      else let seqStr = substring (numberToString seqNum) 0 1;
               partialMsg = message @ ''AY'' @ seqStr @ ''AZ'';
               checksum = calculateChecksum partialMsg
           in Inr (partialMsg @ checksum @ [CHR 0x0D]))"

definition trailerAt :: "string \<Rightarrow> nat \<Rightarrow> bool" where
  \<comment> \<open>the pattern \<open>AZ([0-9A-Fa-f]{4})\r?$\<close> matches when started at index \<open>i\<close>\<close>
  "trailerAt message i =
     (take 2 (drop i message) = ''AZ''
      \<and> length (take 4 (drop (i + 2) message)) = 4
      \<and> list_all isHexDigit (take 4 (drop (i + 2) message))
      \<and> (drop (i + 6) message = [CHR 0x0D] \<or> drop (i + 6) message = []))"

definition trailerMatch :: "string \<Rightarrow> nat option" where
  \<comment> \<open>\<open>message.match(regex)\<close>: the index of the leftmost match, if any\<close>
  "trailerMatch message = find (trailerAt message) [0..<Suc (length message)]"

definition verifyChecksum :: "string \<Rightarrow> bool" where
  "verifyChecksum message =
     (case trailerMatch message of
        None \<Rightarrow> False
      | Some matchIndex \<Rightarrow>
          (let expectedChecksum = toUpperCase (take 4 (drop (matchIndex + 2) message));
               msgWithoutChecksum = substring message 0 (matchIndex + 2);
               actualChecksum = calculateChecksum msgWithoutChecksum
           in actualChecksum = expectedChecksum))"

definition verifyChecksum_outcome :: "string \<Rightarrow> error + bool" where
  \<comment> \<open>the outcome of a call: \<open>verifyChecksum\<close> has no \<open>throw\<close>, every path returns a boolean\<close>
  "verifyChecksum_outcome message = Inr (verifyChecksum message)"

subsection \<open>The checksum and the trailer as the specification words them\<close>

definition hexUpper :: "nat \<Rightarrow> char" where
  "hexUpper d = ''0123456789ABCDEF'' ! d"

definition hex4 :: "nat \<Rightarrow> string" where
  \<comment> \<open>a 16-bit value as four uppercase hex digits\<close>
  "hex4 v = [hexUpper (v div 4096 mod 16), hexUpper (v div 256 mod 16),
             hexUpper (v div 16 mod 16), hexUpper (v mod 16)]"

definition spec_checksum :: "string \<Rightarrow> string" where
  \<comment> \<open>sum the character codes, negate modulo 65536, render as four uppercase hex digits\<close>
  "spec_checksum message = hex4 (nat ((- int (sum_list (map of_char message))) mod 65536))"

definition stripCR :: "string \<Rightarrow> string" where
  \<comment> \<open>the frame without its optional trailing carriage return\<close>
  "stripCR frame = (if frame \<noteq> [] \<and> last frame = CHR 0x0D then butlast frame else frame)"

definition trailer_hex :: "string \<Rightarrow> string" where
  \<comment> \<open>the trailing four characters\<close>
  "trailer_hex frame = drop (length (stripCR frame) - 4) (stripCR frame)"

definition trailer_prefix :: "string \<Rightarrow> string" where
  \<comment> \<open>the prefix up to and including \<open>AZ\<close>\<close>
  "trailer_prefix frame = take (length (stripCR frame) - 4) (stripCR frame)"

definition trailer_ok :: "string \<Rightarrow> bool" where
  \<comment> \<open>the frame ends, ignoring an optional trailing carriage return, with \<open>AZ\<close> and four hex digits\<close>
  "trailer_ok frame =
     (6 \<le> length (stripCR frame)
      \<and> drop (length (stripCR frame) - 6) (trailer_prefix frame) = ''AZ''
      \<and> list_all isHexDigit (trailer_hex frame))"

section \<open>Field sanitizer and formatter (sip-formatter.ts)\<close>

text \<open>
  A parameter with a default value (\<open>seqNum: number = 0\<close>, \<open>institutionId = 'GigaFlair'\<close>) is a
  plain argument of the model: a call that omits it is the call with the default. An optional
  parameter without a default (\<open>patronPin?: string\<close>) is an \<^typ>\<open>string option\<close>, \<open>None\<close> for
  \<open>undefined\<close>. The clock read by \<open>getSipTimestamp\<close> is an argument.
\<close>

record utc_clock =
  utcFullYear :: int
  utcMonth :: int
  utcDate :: int
  utcHours :: int
  utcMinutes :: int
  utcSeconds :: int

definition getSipTimestamp :: "utc_clock \<Rightarrow> string" where
  "getSipTimestamp now =
     (let year = numberToString (utcFullYear now);
          month = padStart (numberToString (utcMonth now + 1)) 2 CHR ''0'';
          day = padStart (numberToString (utcDate now)) 2 CHR ''0'';
          hours = padStart (numberToString (utcHours now)) 2 CHR ''0'';
          mins = padStart (numberToString (utcMinutes now)) 2 CHR ''0'';
          secs = padStart (numberToString (utcSeconds now)) 2 CHR ''0''
      in year @ month @ day @ ''    '' @ hours @ mins @ secs)"

definition stripped :: "char \<Rightarrow> bool" where
  \<comment> \<open>the character class \<open>[|\r\n\x00-\x1F]\<close>\<close>
  "stripped c = (c = CHR ''|'' \<or> c = CHR 0x0D \<or> c = CHR 0x0A \<or> (of_char c :: nat) \<le> 0x1F)"

definition sanitizeSipField :: "string \<Rightarrow> string" where
  "sanitizeSipField v = filter (\<lambda>c. \<not> stripped c) v"

definition isWhiteSpace :: "char \<Rightarrow> bool" where
  \<comment> \<open>the white space and line terminators of \<open>trim\<close> among the codes 0..255\<close>
  "isWhiteSpace c = ((of_char c :: nat) \<in> {0x09, 0x0A, 0x0B, 0x0C, 0x0D, 0x20, 0xA0})"

definition trim :: "string \<Rightarrow> string" where
  "trim s = rev (dropWhile isWhiteSpace (rev (dropWhile isWhiteSpace s)))"

definition truthy :: "string option \<Rightarrow> bool" where
  \<comment> \<open>\<open>if (s)\<close> for an optional string: neither \<open>undefined\<close> nor empty\<close>
  "truthy s = (case s of None \<Rightarrow> False | Some v \<Rightarrow> v \<noteq> [])"

definition optField :: "string \<Rightarrow> string option \<Rightarrow> string" where
  \<comment> \<open>\<open>if (v) msg += `TAG${sanitizeSipField(v)}|`\<close>: what the statement appends\<close>
  "optField tag v = (if truthy v then tag @ sanitizeSipField (the v) @ ''|'' else [])"

definition formatPatronStatusRequest ::
  "utc_clock \<Rightarrow> string \<Rightarrow> string \<Rightarrow> int \<Rightarrow> string \<Rightarrow> error + string" where
  "formatPatronStatusRequest now barcode institutionId seqNum language =
     (let timestamp = getSipTimestamp now;
          safeBarcode = sanitizeSipField barcode;
          safeInst = sanitizeSipField institutionId;
          msg = ''23'' @ substring language 0 3 @ timestamp @ ''AO'' @ safeInst @ ''|AA''
                @ safeBarcode @ ''|AC|''
      in appendChecksum msg seqNum)"

definition formatLoginRequest :: "string \<Rightarrow> string \<Rightarrow> string \<Rightarrow> int \<Rightarrow> error + string" where
  "formatLoginRequest uid pwd locationCode seqNum =
     (let safeUid = sanitizeSipField uid;
          safePwd = sanitizeSipField pwd;
          safeLoc = sanitizeSipField locationCode;
          msg = ''9300CN'' @ safeUid @ ''|CO'' @ safePwd @ ''|CP'' @ safeLoc @ ''|''
      in appendChecksum msg seqNum)"

definition formatCheckoutRequest ::
  "utc_clock \<Rightarrow> string \<Rightarrow> string \<Rightarrow> string \<Rightarrow> int \<Rightarrow> string option \<Rightarrow> error + string" where
  "formatCheckoutRequest now patronBarcode itemBarcode institutionId seqNum patronPin =
     (let timestamp = getSipTimestamp now;
          nbDueDate = padEnd [] 18 CHR '' '';
          msg = ''11YN'' @ timestamp @ nbDueDate @ ''AO'' @ sanitizeSipField institutionId
                @ ''|AA'' @ sanitizeSipField patronBarcode @ ''|AB'' @ sanitizeSipField itemBarcode
                @ ''|AC|'';
          msg = msg @ optField ''AD'' patronPin
      in appendChecksum msg seqNum)"

definition formatCheckinRequest :: "utc_clock \<Rightarrow> string \<Rightarrow> string \<Rightarrow> int \<Rightarrow> error + string" where
  "formatCheckinRequest now itemBarcode institutionId seqNum =
     (let timestamp = getSipTimestamp now;
          msg = ''09N'' @ timestamp @ timestamp @ ''AO'' @ sanitizeSipField institutionId
                @ ''|AB'' @ sanitizeSipField itemBarcode @ ''|AC|''
      in appendChecksum msg seqNum)"

definition formatItemInformationRequest ::
  "utc_clock \<Rightarrow> string \<Rightarrow> string \<Rightarrow> int \<Rightarrow> error + string" where
  "formatItemInformationRequest now itemBarcode institutionId seqNum =
     (let msg = ''17'' @ getSipTimestamp now @ ''AO'' @ sanitizeSipField institutionId
                @ ''|AB'' @ sanitizeSipField itemBarcode @ ''|''
      in appendChecksum msg seqNum)"

definition formatRenewRequest ::
  "utc_clock \<Rightarrow> string \<Rightarrow> string \<Rightarrow> string \<Rightarrow> int \<Rightarrow> string option \<Rightarrow> error + string" where
  "formatRenewRequest now patronBarcode itemBarcode institutionId seqNum patronPin =
     (let timestamp = getSipTimestamp now;
          nbDueDate = padEnd [] 18 CHR '' '';
          msg = ''29YN'' @ timestamp @ nbDueDate @ ''AO'' @ sanitizeSipField institutionId
                @ ''|AA'' @ sanitizeSipField patronBarcode @ ''|AB'' @ sanitizeSipField itemBarcode
                @ ''|'';
          msg = msg @ optField ''AD'' patronPin
      in appendChecksum msg seqNum)"

definition formatFeePaidRequest ::
  "utc_clock \<Rightarrow> string \<Rightarrow> string \<Rightarrow> string \<Rightarrow> string \<Rightarrow> int \<Rightarrow> string \<Rightarrow> string \<Rightarrow> string
     \<Rightarrow> error + string" where
  "formatFeePaidRequest now patronBarcode feeId amount institutionId seqNum feeType paymentType
       currencyType =
     (let safeCurrency = padEnd (substring (sanitizeSipField currencyType) 0 3) 3 CHR '' '';
          msg = ''37'' @ getSipTimestamp now @ substring (padEnd feeType 2 CHR '' '') 0 2
                @ substring (padEnd paymentType 2 CHR '' '') 0 2 @ safeCurrency
                @ ''AO'' @ sanitizeSipField institutionId @ ''|AA'' @ sanitizeSipField patronBarcode
                @ ''|BK'' @ sanitizeSipField feeId @ ''|BV'' @ sanitizeSipField amount
                @ ''|BH'' @ trim safeCurrency @ ''|''
      in appendChecksum msg seqNum)"

record summary_flags =
  holds :: "bool option"
  overdue :: "bool option"
  charged :: "bool option"
  fines :: "bool option"
  recall :: "bool option"

definition summaryFlag :: "bool option \<Rightarrow> string" where
  \<comment> \<open>\<open>f = (b) => (b === true ? 'Y' : ' ')\<close>\<close>
  "summaryFlag b = (if b = Some True then ''Y'' else '' '')"

definition formatPatronInformationRequest ::
  "utc_clock \<Rightarrow> string \<Rightarrow> summary_flags \<Rightarrow> int \<Rightarrow> int \<Rightarrow> string \<Rightarrow> int \<Rightarrow> string
     \<Rightarrow> error + string" where
  "formatPatronInformationRequest now patronBarcode summary startItem endItem institutionId seqNum
       language =
     (let summaryFlags = summaryFlag (holds summary) @ summaryFlag (overdue summary)
                         @ summaryFlag (charged summary) @ summaryFlag (fines summary)
                         @ summaryFlag (recall summary) @ ''     '';
          start = padStart (numberToString startItem) 4 CHR ''0'';
          end = padStart (numberToString endItem) 4 CHR ''0'';
          msg = ''63'' @ substring language 0 3 @ getSipTimestamp now @ summaryFlags
                @ ''AO'' @ sanitizeSipField institutionId @ ''|AA'' @ sanitizeSipField patronBarcode
                @ ''|BP'' @ start @ ''|BQ'' @ end @ ''|''
      in appendChecksum msg seqNum)"

datatype hold_mode = HoldAdd | HoldDelete | HoldChange

definition holdModeChar :: "hold_mode \<Rightarrow> string" where
  \<comment> \<open>the type \<open>'+' | '-' | '*'\<close>\<close>
  "holdModeChar m = (case m of HoldAdd \<Rightarrow> ''+'' | HoldDelete \<Rightarrow> ''-'' | HoldChange \<Rightarrow> ''*'')"

definition formatHoldRequest ::
  "utc_clock \<Rightarrow> hold_mode \<Rightarrow> string \<Rightarrow> string option \<Rightarrow> string option \<Rightarrow> string option \<Rightarrow> string
     \<Rightarrow> int \<Rightarrow> string option \<Rightarrow> error + string" where
  "formatHoldRequest now holdMode patronBarcode itemBarcode expiryDate pickupLocation
       institutionId seqNum titleId =
     (let timestamp = getSipTimestamp now;
          msg = ''15'' @ holdModeChar holdMode @ timestamp;
          msg = msg @ optField ''BW'' expiryDate;
          msg = msg @ ''AO'' @ sanitizeSipField institutionId @ ''|AA''
                @ sanitizeSipField patronBarcode @ ''|'';
          msg = msg @ optField ''AB'' itemBarcode;
          msg = msg @ optField ''BT'' titleId;
          msg = msg @ optField ''BS'' pickupLocation;
          msg = msg @ ''AC|''
      in appendChecksum msg seqNum)"

definition formatRenewAllRequest :: "utc_clock \<Rightarrow> string \<Rightarrow> string \<Rightarrow> int \<Rightarrow> error + string" where
  "formatRenewAllRequest now patronBarcode institutionId seqNum =
     (let timestamp = getSipTimestamp now;
          msg = ''65'' @ timestamp @ timestamp @ ''AO'' @ sanitizeSipField institutionId
                @ ''|AA'' @ sanitizeSipField patronBarcode @ ''|AC|''
      in appendChecksum msg seqNum)"

definition formatEndSessionRequest :: "utc_clock \<Rightarrow> string \<Rightarrow> string \<Rightarrow> int \<Rightarrow> error + string" where
  "formatEndSessionRequest now patronBarcode institutionId seqNum =
     (let msg = ''35'' @ getSipTimestamp now @ ''AO'' @ sanitizeSipField institutionId
                @ ''|AA'' @ sanitizeSipField patronBarcode @ ''|AC|''
      in appendChecksum msg seqNum)"

definition formatSCStatusRequest :: "int \<Rightarrow> error + string" where
  "formatSCStatusRequest seqNum = (let msg = ''9900802.00'' in appendChecksum msg seqNum)"

definition formatBlockPatronRequest ::
  "utc_clock \<Rightarrow> string \<Rightarrow> bool \<Rightarrow> string \<Rightarrow> string \<Rightarrow> int \<Rightarrow> error + string" where
  "formatBlockPatronRequest now patronBarcode cardRetained blockedCardMessage institutionId seqNum =
     (let retained = (if cardRetained then ''Y'' else ''N'');
          msg = ''01'' @ retained @ getSipTimestamp now @ ''AO'' @ sanitizeSipField institutionId
                @ ''|AA'' @ sanitizeSipField patronBarcode @ ''|AC|AL''
                @ sanitizeSipField blockedCardMessage @ ''|''
      in appendChecksum msg seqNum)"

datatype security_marker = Marker0 | Marker1 | Marker2 | Marker3

definition securityMarkerChar :: "security_marker \<Rightarrow> string" where
  \<comment> \<open>the type \<open>'0' | '1' | '2' | '3'\<close>\<close>
  "securityMarkerChar m =
     (case m of Marker0 \<Rightarrow> ''0'' | Marker1 \<Rightarrow> ''1'' | Marker2 \<Rightarrow> ''2'' | Marker3 \<Rightarrow> ''3'')"

definition formatItemStatusUpdateRequest ::
  "utc_clock \<Rightarrow> string \<Rightarrow> security_marker \<Rightarrow> string \<Rightarrow> int \<Rightarrow> error + string" where
  "formatItemStatusUpdateRequest now itemBarcode securityMarker institutionId seqNum =
     (let msg = ''19'' @ securityMarkerChar securityMarker @ getSipTimestamp now
                @ ''AO'' @ sanitizeSipField institutionId @ ''|AB'' @ sanitizeSipField itemBarcode
                @ ''|''
      in appendChecksum msg seqNum)"

definition formatPatronEnableRequest ::
  "utc_clock \<Rightarrow> string \<Rightarrow> string option \<Rightarrow> string \<Rightarrow> int \<Rightarrow> error + string" where
  "formatPatronEnableRequest now patronBarcode patronPin institutionId seqNum =
     (let msg = ''25'' @ getSipTimestamp now @ ''AO'' @ sanitizeSipField institutionId
                @ ''|AA'' @ sanitizeSipField patronBarcode @ ''|AC|'';
          msg = msg @ optField ''AD'' patronPin
      in appendChecksum msg seqNum)"

definition valid_frame :: "error + string \<Rightarrow> bool" where
  \<comment> \<open>the formatter returned a frame, and the frame passes \<open>verifyChecksum\<close>\<close>
  "valid_frame r = (case r of Inl e \<Rightarrow> False | Inr frame \<Rightarrow> verifyChecksum frame)"

definition seqDigit :: "int \<Rightarrow> char" where
  \<comment> \<open>the decimal digit of a sequence number in 0..9\<close>
  "seqDigit seqNum = ''0123456789'' ! nat seqNum"

section \<open>Response parser (sip-parser.ts)\<close>

text \<open>
  A \<open>Record<string, string>\<close> is an association list in insertion order: assigning to a key
  that is present replaces its value in place, assigning to a new key appends it
  (\<^const>\<open>AList.update\<close>), which is the order \<open>Object.entries\<close> enumerates two-letter keys in.
  \<open>fields['AA']\<close> is \<^const>\<open>map_of\<close>, \<open>None\<close> for \<open>undefined\<close>. A local variable whose name is
  also a record field is written with a prime.
\<close>

type_synonym fields = "(string \<times> string) list"
type_synonym multi_fields = "(string \<times> string list) list"

datatype number = NaN | Num int

fun split :: "char \<Rightarrow> string \<Rightarrow> string list" where
  \<comment> \<open>\<open>s.split(sep)\<close> for a one-character separator: at least one part\<close>
  "split sep [] = [[]]"
| "split sep (c # cs) =
     (if c = sep then [] # split sep cs
      else (case split sep cs of part # parts \<Rightarrow> (c # part) # parts | [] \<Rightarrow> [[c]]))"

definition fixedFieldLengths :: "(string \<times> nat) list" where
  "fixedFieldLengths =
     [(''24'', 37), (''64'', 63), (''98'', 36), (''10'', 24), (''12'', 24), (''30'', 21),
      (''16'', 24), (''36'', 21), (''66'', 26), (''26'', 37), (''20'', 21), (''94'', 3),
      (''93'', 4), (''18'', 37)]"

definition fieldThreshold :: "string \<Rightarrow> nat" where
  \<comment> \<open>\<open>fixedFieldLengths[msgType] ?? 15\<close>\<close>
  "fieldThreshold msgType = (case map_of fixedFieldLengths msgType of Some n \<Rightarrow> n | None \<Rightarrow> 15)"

definition tagAhead :: "string \<Rightarrow> bool" where
  \<comment> \<open>\<open>[A-Z]{2}\<close> matches at the start of the string\<close>
  "tagAhead s = (2 \<le> length s \<and> isUpperAscii (s ! 0) \<and> isUpperAscii (s ! 1))"

fun lazyValue :: "string \<Rightarrow> nat option" where
  \<comment> \<open>the length that \<open>([^|]*?)(?=[A-Z]{2}|$)\<close> matches at the start of the string\<close>
  "lazyValue [] = Some 0"
| "lazyValue (c # cs) =
     (if tagAhead (c # cs) then Some 0
      else if c = CHR ''|'' then None
      else map_option Suc (lazyValue cs))"

function tagMatches :: "nat \<Rightarrow> string \<Rightarrow> (nat \<times> string \<times> string) list" where
  \<comment> \<open>the successive results \<open>(m.index, m[1], m[2])\<close> of \<open>tagPattern.exec\<close> on a string of
     which \<open>s\<close> is the rest from index \<open>i\<close> on\<close>
  "tagMatches i s =
     (if s = [] then []
      else if tagAhead s then
        (case lazyValue (drop 2 s) of
           Some n \<Rightarrow> (i, take 2 s, take n (drop 2 s)) # tagMatches (i + 2 + n) (drop (2 + n) s)
         | None \<Rightarrow> tagMatches (i + 1) (tl s))
      else tagMatches (i + 1) (tl s))"
  by pat_completeness auto
termination
  by (relation "measure (\<lambda>(i, s). length s)") auto

declare tagMatches.simps [simp del]

definition isTag :: "string \<Rightarrow> bool" where
  \<comment> \<open>\<open>/^[A-Z]{2}$/.test(tag)\<close>\<close>
  "isTag tag = (length tag = 2 \<and> list_all isUpperAscii tag)"

definition ayAhead :: "string \<Rightarrow> bool" where
  \<comment> \<open>\<open>AY(\d)AZ\<close> matches at the start of the string\<close>
  "ayAhead s = (5 \<le> length s \<and> take 2 s = ''AY'' \<and> isDigit (s ! 2) \<and> take 2 (drop 3 s) = ''AZ'')"

fun ayMatch :: "string \<Rightarrow> char option" where
  \<comment> \<open>the digit captured by the leftmost match of \<open>/AY(\d)AZ/\<close>\<close>
  "ayMatch [] = None"
| "ayMatch (c # cs) = (if ayAhead (c # cs) then Some ((c # cs) ! 2) else ayMatch cs)"

definition parseFields :: "string \<Rightarrow> fields" where
  "parseFields raw =
     (let parts = split CHR ''|'' raw;
          header = hd parts;
          msgType = substring header 0 2;
          threshold = fieldThreshold msgType;
          fields' = foldl (\<lambda>fields' m. case m of (index, tag, v) \<Rightarrow>
                      if index \<ge> threshold then AList.update tag v fields' else fields')
                    [] (tagMatches 0 header);
          fields' = foldl (\<lambda>fields' part.
                      let tag = substring part 0 2
                      in if isTag tag then AList.update tag (drop 2 part) fields' else fields')
                    fields' (tl parts)
      in case ayMatch raw of
           Some d \<Rightarrow> AList.update ''AY'' [d] fields'
         | None \<Rightarrow> fields')"

definition pushValue :: "string \<Rightarrow> string \<Rightarrow> multi_fields \<Rightarrow> multi_fields" where
  \<comment> \<open>\<open>if (!fields[tag]) fields[tag] = []; fields[tag].push(v)\<close>\<close>
  "pushValue tag v fields' =
     (case map_of fields' tag of
        None \<Rightarrow> AList.update tag [v] fields'
      | Some vs \<Rightarrow> AList.update tag (vs @ [v]) fields')"

definition parseFieldsMulti :: "string \<Rightarrow> multi_fields" where
  "parseFieldsMulti raw =
     (let parts = split CHR ''|'' raw;
          msgType = substring (hd parts) 0 2;
          threshold = fieldThreshold msgType;
          fields' = foldl (\<lambda>fields' m. case m of (index, tag, v) \<Rightarrow>
                      if index \<ge> threshold then pushValue tag v fields' else fields')
                    [] (tagMatches 0 (hd parts))
      in foldl (\<lambda>fields' part.
                  let tag = substring part 0 2
                  in if isTag tag then pushValue tag (drop 2 part) fields' else fields')
           fields' (tl parts))"

definition TAGS_PATRON_STATUS :: "string list" where
  "TAGS_PATRON_STATUS =
     [''AO'', ''AA'', ''AE'', ''BL'', ''BZ'', ''CA'', ''CB'', ''AU'', ''CD'', ''AS'', ''AF'', ''AG'']"

definition TAGS_CHECKOUT :: "string list" where
  "TAGS_CHECKOUT = [''AO'', ''AA'', ''AB'', ''AJ'', ''AH'', ''BV'', ''AF'', ''AG'']"

definition TAGS_CHECKIN :: "string list" where
  "TAGS_CHECKIN = [''AO'', ''AB'', ''AJ'', ''AQ'', ''AF'', ''AG'']"

definition TAGS_ITEM_INFO :: "string list" where
  "TAGS_ITEM_INFO = [''AO'', ''AB'', ''AJ'', ''BG'', ''BH'', ''CK'', ''AF'']"

definition TAGS_FEE_PAID :: "string list" where
  "TAGS_FEE_PAID = [''AO'', ''AA'', ''BK'', ''BH'', ''AF'']"

definition TAGS_PATRON_INFO :: "string list" where
  "TAGS_PATRON_INFO =
     [''AO'', ''AA'', ''AE'', ''BL'', ''BE'', ''BF'', ''BD'', ''AF'', ''AT'', ''AU'', ''AV'', ''BU'',
      ''BJ'', ''BP'', ''BQ'']"

definition TAGS_HOLD :: "string list" where
  "TAGS_HOLD = [''AO'', ''AA'', ''AB'', ''AJ'', ''BW'', ''BS'', ''MN'', ''AF'', ''AG'']"

definition TAGS_RENEW_ALL :: "string list" where
  "TAGS_RENEW_ALL = [''AO'', ''AA'', ''BM'', ''BN'', ''AF'']"

definition TAGS_END_SESSION :: "string list" where
  "TAGS_END_SESSION = [''AO'', ''AA'', ''AF'', ''AG'']"

definition TAGS_ACS_STATUS :: "string list" where
  "TAGS_ACS_STATUS = [''AO'', ''AM'', ''BX'', ''AN'', ''AF'']"

definition TAGS_ITEM_STATUS_UPDATE :: "string list" where
  "TAGS_ITEM_STATUS_UPDATE = [''AO'', ''AB'', ''AJ'', ''AF'', ''AG'']"

definition parseExtensions :: "string \<Rightarrow> string list \<Rightarrow> fields option" where
  \<comment> \<open>\<open>knownTags\<close> is the \<open>Set\<close> of known tags, by its elements\<close>
  "parseExtensions raw knownTags =
     (let all = parseFields raw;
          ext = foldl (\<lambda>ext entry. case entry of (tag, v) \<Rightarrow>
                   if tag = ''AY'' \<or> tag = ''AZ'' then ext
                   else if tag \<notin> set knownTags then AList.update tag v ext
                   else ext)
                 [] all
      in if length ext > 0 then Some ext else None)"

definition orElse :: "string option \<Rightarrow> string \<Rightarrow> string" where
  \<comment> \<open>\<open>v || d\<close> for a string that may be \<open>undefined\<close>: \<open>undefined\<close> and \<open>''\<close> are falsy\<close>
  "orElse v d = (case v of None \<Rightarrow> d | Some s \<Rightarrow> if s = [] then d else s)"

definition orEmpty :: "string list option \<Rightarrow> string list" where
  \<comment> \<open>\<open>multiFields[tag] || []\<close>: an array is truthy\<close>
  "orEmpty v = (case v of None \<Rightarrow> [] | Some vs \<Rightarrow> vs)"

definition digitsValue :: "string \<Rightarrow> int" where
  "digitsValue ds = foldl (\<lambda>n c. 10 * n + (of_char c - 48)) 0 ds"

definition parseInt :: "string \<Rightarrow> number" where
  \<comment> \<open>\<open>parseInt(s, 10)\<close>: leading white space, an optional sign, then the longest run of
     digits; \<open>NaN\<close> without a digit. The value is exact (the rounding of a double above
     \<open>2^53\<close> is left out).\<close>
  "parseInt s =
     (let t = dropWhile isWhiteSpace s;
          negative = (t \<noteq> [] \<and> hd t = CHR ''-'');
          u = (if t \<noteq> [] \<and> (hd t = CHR ''-'' \<or> hd t = CHR ''+'') then tl t else t);
          ds = takeWhile isDigit u
      in if ds = [] then NaN
         else Num (if negative then - digitsValue ds else digitsValue ds))"

definition isChar :: "string \<Rightarrow> nat \<Rightarrow> char \<Rightarrow> bool" where
  \<comment> \<open>\<open>s[i] === 'c'\<close>\<close>
  "isChar s i c = (charAt s i = Some c)"

record PatronFlags =
  chargePrivilegesDenied :: bool
  renewalPrivilegesDenied :: bool
  recallPrivilegesDenied :: bool
  holdPrivilegesDenied :: bool
  cardReportedLost :: bool
  tooManyItemsOverdue :: bool
  excessiveFines :: bool

definition statusFlags :: "string \<Rightarrow> PatronFlags" where
  \<comment> \<open>the \<open>flags\<close> object literal over \<open>statusMask\<close>\<close>
  "statusFlags statusMask =
     \<lparr>chargePrivilegesDenied = isChar statusMask 0 CHR ''Y'',
      renewalPrivilegesDenied = isChar statusMask 1 CHR ''Y'',
      recallPrivilegesDenied = isChar statusMask 2 CHR ''Y'',
      holdPrivilegesDenied = isChar statusMask 3 CHR ''Y'',
      cardReportedLost = isChar statusMask 4 CHR ''Y'',
      tooManyItemsOverdue = isChar statusMask 6 CHR ''Y'',
      excessiveFines = isChar statusMask 10 CHR ''Y''\<rparr>"

record PatronStatusResponse =
  patronBarcode :: string
  patronName :: string
  validPatron :: bool
  holdItemsCount :: number
  overdueItemsCount :: number
  chargedItemsCount :: number
  recallItemsCount :: number
  unavailHoldsCount :: number
  flags :: PatronFlags
  screenMessages :: "string list"
  extensions :: "fields option"

definition parsePatronStatusResponse :: "string \<Rightarrow> error + PatronStatusResponse" where
  "parsePatronStatusResponse raw =
     (if \<not> startsWith raw ''24'' then Inl UnexpectedResponseCode
      else let statusMask = substring raw 2 16;
               fields' = parseFields raw;
               multiFields = parseFieldsMulti raw
           in Inr \<lparr>patronBarcode = orElse (map_of fields' ''AA'') [],
                   patronName = orElse (map_of fields' ''AE'') ''Unknown'',
                   validPatron = (orElse (map_of fields' ''BL'') ''N'' = ''Y''),
                   holdItemsCount = parseInt (orElse (map_of fields' ''BZ'') ''0''),
                   overdueItemsCount = parseInt (orElse (map_of fields' ''CA'') ''0''),
                   chargedItemsCount = parseInt (orElse (map_of fields' ''CB'') ''0''),
                   recallItemsCount = parseInt (orElse (map_of fields' ''CD'') ''0''),
                   unavailHoldsCount = parseInt (orElse (map_of fields' ''AS'') ''0''),
                   flags = statusFlags statusMask,
                   screenMessages = orEmpty (map_of multiFields ''AF''),
                   extensions = parseExtensions raw TAGS_PATRON_STATUS\<rparr>)"

record CheckoutResponse =
  ok :: bool
  renewalOk :: bool
  transactionDate :: string
  institutionId :: string
  patronBarcode :: string
  itemBarcode :: string
  titleId :: string
  dueDate :: string
  feeAmount :: "string option"
  screenMessage :: "string option"
  screenMessages :: "string list"
  printLine :: "string option"
  extensions :: "fields option"

definition parseCheckoutResponse :: "string \<Rightarrow> error + CheckoutResponse" where
  "parseCheckoutResponse raw =
     (if \<not> startsWith raw ''12'' \<and> \<not> startsWith raw ''30'' then Inl UnexpectedResponseCode
      else let fields' = parseFields raw;
               multiFields = parseFieldsMulti raw
           in Inr \<lparr>CheckoutResponse.ok = isChar raw 2 CHR ''1'',
                   renewalOk = isChar raw 3 CHR ''Y'',
                   CheckoutResponse.transactionDate = trim (substring raw 6 24),
                   CheckoutResponse.institutionId = orElse (map_of fields' ''AO'') [],
                   CheckoutResponse.patronBarcode = orElse (map_of fields' ''AA'') [],
                   CheckoutResponse.itemBarcode = orElse (map_of fields' ''AB'') [],
                   CheckoutResponse.titleId = orElse (map_of fields' ''AJ'') ''Unknown Title'',
                   dueDate = orElse (map_of fields' ''AH'') [],
                   feeAmount = map_of fields' ''BV'',
                   CheckoutResponse.screenMessage = map_of fields' ''AF'',
                   CheckoutResponse.screenMessages = orEmpty (map_of multiFields ''AF''),
                   CheckoutResponse.printLine = map_of fields' ''AG'',
                   CheckoutResponse.extensions = parseExtensions raw TAGS_CHECKOUT\<rparr>)"

record CheckinResponse =
  ok :: bool
  resensitize :: bool
  magneticMedia :: bool
  alert :: bool
  transactionDate :: string
  institutionId :: string
  itemBarcode :: string
  titleId :: string
  permanentLocation :: "string option"
  screenMessage :: "string option"
  screenMessages :: "string list"
  printLine :: "string option"
  extensions :: "fields option"

definition parseCheckinResponse :: "string \<Rightarrow> error + CheckinResponse" where
  "parseCheckinResponse raw =
     (if \<not> startsWith raw ''10'' then Inl UnexpectedResponseCode
      else let fields' = parseFields raw;
               multiFields = parseFieldsMulti raw
           in Inr \<lparr>CheckinResponse.ok = isChar raw 2 CHR ''1'',
                   resensitize = isChar raw 3 CHR ''Y'',
                   magneticMedia = isChar raw 4 CHR ''Y'',
                   alert = isChar raw 5 CHR ''Y'',
                   CheckinResponse.transactionDate = trim (substring raw 6 24),
                   CheckinResponse.institutionId = orElse (map_of fields' ''AO'') [],
                   CheckinResponse.itemBarcode = orElse (map_of fields' ''AB'') [],
                   CheckinResponse.titleId = orElse (map_of fields' ''AJ'') ''Unknown Title'',
                   permanentLocation = map_of fields' ''AQ'',
                   CheckinResponse.screenMessage = map_of fields' ''AF'',
                   CheckinResponse.screenMessages = orEmpty (map_of multiFields ''AF''),
                   CheckinResponse.printLine = map_of fields' ''AG'',
                   CheckinResponse.extensions = parseExtensions raw TAGS_CHECKIN\<rparr>)"

record ItemInformationResponse =
  circulationStatus :: string
  securityMarker :: string
  feeType :: string
  transactionDate :: string
  itemBarcode :: string
  titleId :: string
  owner :: "string option"
  currencyType :: "string option"
  callNumber :: "string option"
  extensions :: "fields option"

definition parseItemInformationResponse :: "string \<Rightarrow> error + ItemInformationResponse" where
  "parseItemInformationResponse raw =
     (if \<not> startsWith raw ''18'' then Inl UnexpectedResponseCode
      else let fields' = parseFields raw
           in Inr \<lparr>circulationStatus = substring raw 2 4,
                   ItemInformationResponse.securityMarker = substring raw 4 6,
                   feeType = substring raw 6 8,
                   ItemInformationResponse.transactionDate = trim (substring raw 8 26),
                   ItemInformationResponse.itemBarcode = orElse (map_of fields' ''AB'') [],
                   ItemInformationResponse.titleId = orElse (map_of fields' ''AJ'') ''Unknown Title'',
                   owner = map_of fields' ''BG'',
                   currencyType = map_of fields' ''BH'',
                   callNumber = map_of fields' ''CK'',
                   ItemInformationResponse.extensions = parseExtensions raw TAGS_ITEM_INFO\<rparr>)"

record FeePaidResponse =
  ok :: bool
  transactionDate :: string
  institutionId :: string
  patronBarcode :: string
  transactionId :: "string option"
  screenMessage :: "string option"
  screenMessages :: "string list"
  extensions :: "fields option"

definition parseFeePaidResponse :: "string \<Rightarrow> error + FeePaidResponse" where
  "parseFeePaidResponse raw =
     (if \<not> startsWith raw ''38'' then Inl UnexpectedResponseCode
      else let fields' = parseFields raw;
               multiFields = parseFieldsMulti raw
           in Inr \<lparr>FeePaidResponse.ok = isChar raw 2 CHR ''1'',
                   FeePaidResponse.transactionDate = trim (substring raw 3 21),
                   FeePaidResponse.institutionId = orElse (map_of fields' ''AO'') [],
                   FeePaidResponse.patronBarcode = orElse (map_of fields' ''AA'') [],
                   transactionId = map_of fields' ''BK'',
                   FeePaidResponse.screenMessage = map_of fields' ''AF'',
                   FeePaidResponse.screenMessages = orEmpty (map_of multiFields ''AF''),
                   FeePaidResponse.extensions = parseExtensions raw TAGS_FEE_PAID\<rparr>)"

record PatronInformationResponse =
  patronBarcode :: string
  patronName :: string
  validPatron :: bool
  holdItemsCount :: number
  overdueItemsCount :: number
  chargedItemsCount :: number
  fineItemsCount :: number
  recallItemsCount :: number
  unavailHoldsCount :: number
  flags :: PatronFlags
  holdItems :: "string list"
  overdueItems :: "string list"
  chargedItems :: "string list"
  fineItems :: "string list"
  recallItems :: "string list"
  email :: "string option"
  phone :: "string option"
  homeAddress :: "string option"
  screenMessage :: "string option"
  screenMessages :: "string list"
  extensions :: "fields option"

definition countField :: "string \<Rightarrow> nat \<Rightarrow> nat \<Rightarrow> number" where
  \<comment> \<open>\<open>parseInt(raw.substring(a, b).trim() || '0', 10)\<close>\<close>
  "countField raw a b = parseInt (orElse (Some (trim (substring raw a b))) ''0'')"

definition parsePatronInformationResponse :: "string \<Rightarrow> error + PatronInformationResponse" where
  "parsePatronInformationResponse raw =
     (if \<not> startsWith raw ''64'' then Inl UnexpectedResponseCode
      else let statusMask = substring raw 2 16;
               holdItemsCount' = countField raw 37 41;
               overdueItemsCount' = countField raw 41 45;
               chargedItemsCount' = countField raw 45 49;
               fineItemsCount' = countField raw 49 53;
               recallItemsCount' = countField raw 53 57;
               unavailHoldsCount' = countField raw 57 61;
               fields' = parseFields raw;
               multiFields = parseFieldsMulti raw
           in Inr \<lparr>PatronInformationResponse.patronBarcode = orElse (map_of fields' ''AA'') [],
                   PatronInformationResponse.patronName = orElse (map_of fields' ''AE'') ''Unknown'',
                   PatronInformationResponse.validPatron = (orElse (map_of fields' ''BL'') ''N'' = ''Y''),
                   PatronInformationResponse.holdItemsCount = holdItemsCount',
                   PatronInformationResponse.overdueItemsCount = overdueItemsCount',
                   PatronInformationResponse.chargedItemsCount = chargedItemsCount',
                   fineItemsCount = fineItemsCount',
                   PatronInformationResponse.recallItemsCount = recallItemsCount',
                   PatronInformationResponse.unavailHoldsCount = unavailHoldsCount',
                   PatronInformationResponse.flags = statusFlags statusMask,
                   holdItems = orEmpty (map_of multiFields ''AT''),
                   overdueItems = orEmpty (map_of multiFields ''AU''),
                   chargedItems = orEmpty (map_of multiFields ''AV''),
                   fineItems = orEmpty (map_of multiFields ''BU''),
                   recallItems = orEmpty (map_of multiFields ''BJ''),
                   email = map_of fields' ''BE'',
                   phone = map_of fields' ''BF'',
                   homeAddress = map_of fields' ''BD'',
                   PatronInformationResponse.screenMessage = map_of fields' ''AF'',
                   PatronInformationResponse.screenMessages = orEmpty (map_of multiFields ''AF''),
                   PatronInformationResponse.extensions = parseExtensions raw TAGS_PATRON_INFO\<rparr>)"

record HoldResponse =
  ok :: bool
  available :: bool
  transactionDate :: string
  institutionId :: string
  patronBarcode :: string
  itemBarcode :: "string option"
  titleId :: "string option"
  expirationDate :: "string option"
  pickupLocation :: "string option"
  queuePosition :: "string option"
  screenMessage :: "string option"
  screenMessages :: "string list"
  printLine :: "string option"
  extensions :: "fields option"

definition parseHoldResponse :: "string \<Rightarrow> error + HoldResponse" where
  "parseHoldResponse raw =
     (if \<not> startsWith raw ''16'' then Inl UnexpectedResponseCode
      else let fields' = parseFields raw;
               multiFields = parseFieldsMulti raw
           in Inr \<lparr>HoldResponse.ok = isChar raw 2 CHR ''1'',
                   available = isChar raw 3 CHR ''Y'',
                   HoldResponse.transactionDate = trim (substring raw 4 22),
                   HoldResponse.institutionId = orElse (map_of fields' ''AO'') [],
                   HoldResponse.patronBarcode = orElse (map_of fields' ''AA'') [],
                   HoldResponse.itemBarcode = map_of fields' ''AB'',
                   HoldResponse.titleId = map_of fields' ''AJ'',
                   expirationDate = map_of fields' ''BW'',
                   pickupLocation = map_of fields' ''BS'',
                   queuePosition = map_of fields' ''MN'',
                   HoldResponse.screenMessage = map_of fields' ''AF'',
                   HoldResponse.screenMessages = orEmpty (map_of multiFields ''AF''),
                   HoldResponse.printLine = map_of fields' ''AG'',
                   HoldResponse.extensions = parseExtensions raw TAGS_HOLD\<rparr>)"

record RenewAllResponse =
  ok :: bool
  renewedCount :: number
  unrenewedCount :: number
  transactionDate :: string
  institutionId :: string
  patronBarcode :: string
  renewedItems :: "string list"
  unrenewedItems :: "string list"
  screenMessage :: "string option"
  screenMessages :: "string list"
  extensions :: "fields option"

definition parseRenewAllResponse :: "string \<Rightarrow> error + RenewAllResponse" where
  "parseRenewAllResponse raw =
     (if \<not> startsWith raw ''66'' then Inl UnexpectedResponseCode
      else let ok' = isChar raw 2 CHR ''1'';
               renewedCount' = countField raw 3 7;
               unrenewedCount' = countField raw 7 11;
               transactionDate' = trim (substring raw 11 29);
               fields' = parseFields raw;
               multiFields = parseFieldsMulti raw
           in Inr \<lparr>RenewAllResponse.ok = ok',
                   renewedCount = renewedCount',
                   unrenewedCount = unrenewedCount',
                   RenewAllResponse.transactionDate = transactionDate',
                   RenewAllResponse.institutionId = orElse (map_of fields' ''AO'') [],
                   RenewAllResponse.patronBarcode = orElse (map_of fields' ''AA'') [],
                   renewedItems = orEmpty (map_of multiFields ''BM''),
                   unrenewedItems = orEmpty (map_of multiFields ''BN''),
                   RenewAllResponse.screenMessage = map_of fields' ''AF'',
                   RenewAllResponse.screenMessages = orEmpty (map_of multiFields ''AF''),
                   RenewAllResponse.extensions = parseExtensions raw TAGS_RENEW_ALL\<rparr>)"

record EndSessionResponse =
  endSession :: bool
  transactionDate :: string
  institutionId :: string
  patronBarcode :: string
  screenMessage :: "string option"
  screenMessages :: "string list"
  printLine :: "string option"
  extensions :: "fields option"

definition parseEndSessionResponse :: "string \<Rightarrow> error + EndSessionResponse" where
  "parseEndSessionResponse raw =
     (if \<not> startsWith raw ''36'' then Inl UnexpectedResponseCode
      else let fields' = parseFields raw;
               multiFields = parseFieldsMulti raw
           in Inr \<lparr>endSession = isChar raw 2 CHR ''Y'',
                   EndSessionResponse.transactionDate = trim (substring raw 3 21),
                   EndSessionResponse.institutionId = orElse (map_of fields' ''AO'') [],
                   EndSessionResponse.patronBarcode = orElse (map_of fields' ''AA'') [],
                   EndSessionResponse.screenMessage = map_of fields' ''AF'',
                   EndSessionResponse.screenMessages = orEmpty (map_of multiFields ''AF''),
                   EndSessionResponse.printLine = map_of fields' ''AG'',
                   EndSessionResponse.extensions = parseExtensions raw TAGS_END_SESSION\<rparr>)"

record ACSStatusResponse =
  onlineStatus :: bool
  checkinOk :: bool
  checkoutOk :: bool
  acsRenewalPolicy :: bool
  statusUpdateOk :: bool
  offlineOk :: bool
  timeoutPeriod :: number
  retriesAllowed :: number
  dateTimeSync :: string
  protocolVersion :: string
  institutionId :: string
  libraryName :: "string option"
  supportedMessages :: "string option"
  terminalLocation :: "string option"
  screenMessage :: "string option"
  extensions :: "fields option"

definition parseACSStatusResponse :: "string \<Rightarrow> error + ACSStatusResponse" where
  "parseACSStatusResponse raw =
     (if \<not> startsWith raw ''98'' then Inl UnexpectedResponseCode
      else let fields' = parseFields raw
           in Inr \<lparr>onlineStatus = isChar raw 2 CHR ''Y'',
                   checkinOk = isChar raw 3 CHR ''Y'',
                   checkoutOk = isChar raw 4 CHR ''Y'',
                   acsRenewalPolicy = isChar raw 5 CHR ''Y'',
                   statusUpdateOk = isChar raw 6 CHR ''Y'',
                   offlineOk = isChar raw 7 CHR ''Y'',
                   timeoutPeriod = countField raw 8 11,
                   retriesAllowed = countField raw 11 14,
                   dateTimeSync = trim (substring raw 14 32),
                   protocolVersion = trim (substring raw 32 36),
                   ACSStatusResponse.institutionId = orElse (map_of fields' ''AO'') [],
                   libraryName = map_of fields' ''AM'',
                   supportedMessages = map_of fields' ''BX'',
                   terminalLocation = map_of fields' ''AN'',
                   ACSStatusResponse.screenMessage = map_of fields' ''AF'',
                   ACSStatusResponse.extensions = parseExtensions raw TAGS_ACS_STATUS\<rparr>)"

record ItemStatusUpdateResponse =
  securityMarker :: "char option"
  transactionDate :: string
  institutionId :: string
  itemBarcode :: string
  titleId :: string
  screenMessage :: "string option"
  screenMessages :: "string list"
  printLine :: "string option"
  extensions :: "fields option"

definition parseItemStatusUpdateResponse :: "string \<Rightarrow> error + ItemStatusUpdateResponse" where
  "parseItemStatusUpdateResponse raw =
     (if \<not> startsWith raw ''20'' then Inl UnexpectedResponseCode
      else let fields' = parseFields raw;
               multiFields = parseFieldsMulti raw
           in Inr \<lparr>ItemStatusUpdateResponse.securityMarker = charAt raw 2,
                   ItemStatusUpdateResponse.transactionDate = trim (substring raw 3 21),
                   ItemStatusUpdateResponse.institutionId = orElse (map_of fields' ''AO'') [],
                   ItemStatusUpdateResponse.itemBarcode = orElse (map_of fields' ''AB'') [],
                   ItemStatusUpdateResponse.titleId = orElse (map_of fields' ''AJ'') [],
                   ItemStatusUpdateResponse.screenMessage = map_of fields' ''AF'',
                   ItemStatusUpdateResponse.screenMessages = orEmpty (map_of multiFields ''AF''),
                   ItemStatusUpdateResponse.printLine = map_of fields' ''AG'',
                   ItemStatusUpdateResponse.extensions =
                     parseExtensions raw TAGS_ITEM_STATUS_UPDATE\<rparr>)"

definition parsePatronEnableResponse :: "string \<Rightarrow> error + PatronStatusResponse" where
  \<comment> \<open>\<open>PatronEnableResponse\<close> is the type \<open>PatronStatusResponse\<close>\<close>
  "parsePatronEnableResponse raw =
     (if \<not> startsWith raw ''26'' then Inl UnexpectedResponseCode
      else let statusMask = substring raw 2 16;
               fields' = parseFields raw;
               multiFields = parseFieldsMulti raw
           in Inr \<lparr>PatronStatusResponse.patronBarcode = orElse (map_of fields' ''AA'') [],
                   PatronStatusResponse.patronName = orElse (map_of fields' ''AE'') ''Unknown'',
                   PatronStatusResponse.validPatron = (orElse (map_of fields' ''BL'') ''N'' = ''Y''),
                   PatronStatusResponse.holdItemsCount = parseInt (orElse (map_of fields' ''BZ'') ''0''),
                   PatronStatusResponse.overdueItemsCount = parseInt (orElse (map_of fields' ''CA'') ''0''),
                   PatronStatusResponse.chargedItemsCount = parseInt (orElse (map_of fields' ''CB'') ''0''),
                   PatronStatusResponse.recallItemsCount = parseInt (orElse (map_of fields' ''CD'') ''0''),
                   PatronStatusResponse.unavailHoldsCount = parseInt (orElse (map_of fields' ''AS'') ''0''),
                   PatronStatusResponse.flags = statusFlags statusMask,
                   PatronStatusResponse.screenMessages = orEmpty (map_of multiFields ''AF''),
                   PatronStatusResponse.extensions = parseExtensions raw TAGS_PATRON_STATUS\<rparr>)"

section \<open>Masking service (MaskingService.ts)\<close>

subsection \<open>HMAC-SHA-256, the function of Node's \<open>crypto\<close> module\<close>

text \<open>
  \<open>crypto.createHmac('sha256', key).update(data).digest('hex')\<close> is not code of the repository.
  It is written out here from FIPS 180-4 (SHA-256) and RFC 2104 (HMAC), on 32-bit words held
  as natural numbers below \<open>2^32\<close> with the wrap-around written out, so that a mask can be
  evaluated. Strings are hashed as their UTF-8 bytes.
\<close>

type_synonym sha_state = "nat \<times> nat \<times> nat \<times> nat \<times> nat \<times> nat \<times> nat \<times> nat"

definition add32 :: "nat \<Rightarrow> nat \<Rightarrow> nat" where
  "add32 a b = (a + b) mod 4294967296"

definition rotr :: "nat \<Rightarrow> nat \<Rightarrow> nat" where
  \<comment> \<open>rotate right in 32 bits: the two parts have no bit in common, their sum is their union\<close>
  "rotr n x = drop_bit n x + push_bit (32 - n) (take_bit n x)"

definition not32 :: "nat \<Rightarrow> nat" where
  "not32 x = 4294967295 - x"

definition sha_K :: "nat list" where
  \<comment> \<open>the round constants of FIPS 180-4, section 4.2.2\<close>
  "sha_K = [
     1116352408, 1899447441, 3049323471, 3921009573, 961987163, 1508970993,
     2453635748, 2870763221, 3624381080, 310598401, 607225278, 1426881987,
     1925078388, 2162078206, 2614888103, 3248222580, 3835390401, 4022224774,
     264347078, 604807628, 770255983, 1249150122, 1555081692, 1996064986,
     2554220882, 2821834349, 2952996808, 3210313671, 3336571891, 3584528711,
     113926993, 338241895, 666307205, 773529912, 1294757372, 1396182291,
     1695183700, 1986661051, 2177026350, 2456956037, 2730485921, 2820302411,
     3259730800, 3345764771, 3516065817, 3600352804, 4094571909, 275423344,
     430227734, 506948616, 659060556, 883997877, 958139571, 1322822218,
     1537002063, 1747873779, 1955562222, 2024104815, 2227730452, 2361852424,
     2428436474, 2756734187, 3204031479, 3329325298]"

definition sha_H0 :: sha_state where
  \<comment> \<open>the initial hash value of FIPS 180-4, section 5.3.3\<close>
  "sha_H0 = (1779033703, 3144134277, 1013904242, 2773480762,
             1359893119, 2600822924, 528734635, 1541459225)"

definition Sigma0 :: "nat \<Rightarrow> nat" where
  "Sigma0 a = rotr 2 a XOR rotr 13 a XOR rotr 22 a"

definition Sigma1 :: "nat \<Rightarrow> nat" where
  "Sigma1 e = rotr 6 e XOR rotr 11 e XOR rotr 25 e"

definition Ch :: "nat \<Rightarrow> nat \<Rightarrow> nat \<Rightarrow> nat" where
  "Ch e f g = (e AND f) XOR (not32 e AND g)"

definition Maj :: "nat \<Rightarrow> nat \<Rightarrow> nat \<Rightarrow> nat" where
  "Maj a b c = (a AND b) XOR (a AND c) XOR (b AND c)"

definition sigma0 :: "nat \<Rightarrow> nat" where
  "sigma0 x = rotr 7 x XOR rotr 18 x XOR drop_bit 3 x"

definition sigma1 :: "nat \<Rightarrow> nat" where
  "sigma1 x = rotr 17 x XOR rotr 19 x XOR drop_bit 10 x"

fun shift_in :: "nat \<Rightarrow> nat \<Rightarrow> sha_state \<Rightarrow> sha_state" where
  "shift_in t1 t2 (a, b, c, d, e, f, g, h) = (add32 t1 t2, a, b, c, add32 d t1, e, f, g)"

fun sha_round :: "sha_state \<Rightarrow> nat \<Rightarrow> nat \<Rightarrow> sha_state" where
  "sha_round (a, b, c, d, e, f, g, h) k w =
     shift_in (add32 (add32 (add32 (add32 h (Sigma1 e)) (Ch e f g)) k) w)
              (add32 (Sigma0 a) (Maj a b c)) (a, b, c, d, e, f, g, h)"

definition next_w :: "nat list \<Rightarrow> nat" where
  \<comment> \<open>the next word of the message schedule, from the sixteen before it\<close>
  "next_w w = add32 (add32 (add32 (w ! 0) (sigma0 (w ! 1))) (w ! 9)) (sigma1 (w ! 14))"

fun sha_rounds :: "nat list \<Rightarrow> nat list \<Rightarrow> sha_state \<Rightarrow> sha_state" where
  \<comment> \<open>one round per constant; \<open>w\<close> is the window of the sixteen current schedule words\<close>
  "sha_rounds [] w s = s"
| "sha_rounds (k # ks) w s = sha_rounds ks (tl w @ [next_w w]) (sha_round s k (hd w))"

fun add_state :: "sha_state \<Rightarrow> sha_state \<Rightarrow> sha_state" where
  "add_state (a, b, c, d, e, f, g, h) (a', b', c', d', e', f', g', h') =
     (add32 a a', add32 b b', add32 c c', add32 d d', add32 e e', add32 f f', add32 g g',
      add32 h h')"

fun be_words :: "nat list \<Rightarrow> nat list" where
  \<comment> \<open>bytes to big-endian 32-bit words\<close>
  "be_words (b0 # b1 # b2 # b3 # bs) = (((b0 * 256 + b1) * 256 + b2) * 256 + b3) # be_words bs"
| "be_words bs = []"

definition compress :: "sha_state \<Rightarrow> nat list \<Rightarrow> sha_state" where
  "compress h block = add_state h (sha_rounds sha_K (be_words block) h)"

definition be_bytes8 :: "nat \<Rightarrow> nat list" where
  \<comment> \<open>a length as eight big-endian bytes\<close>
  "be_bytes8 n = map (\<lambda>i. (n div 256 ^ (7 - i)) mod 256) [0, 1, 2, 3, 4, 5, 6, 7]"

definition sha_pad :: "nat list \<Rightarrow> nat list" where
  "sha_pad m = m @ [128] @ replicate ((119 - length m mod 64) mod 64) 0 @ be_bytes8 (8 * length m)"

function sha_blocks :: "sha_state \<Rightarrow> nat list \<Rightarrow> sha_state" where
  "sha_blocks h bs = (if length bs < 64 then h else sha_blocks (compress h (take 64 bs)) (drop 64 bs))"
  by pat_completeness auto
termination
  by (relation "measure (\<lambda>(h, bs). length bs)") auto

declare sha_blocks.simps [simp del]

definition hex8 :: "nat \<Rightarrow> string" where
  \<comment> \<open>a 32-bit word as eight lowercase hex digits\<close>
  "hex8 w = padStart (toStringRadix 16 w) 8 CHR ''0''"

fun state_hex :: "sha_state \<Rightarrow> string" where
  "state_hex (a, b, c, d, e, f, g, h) =
     hex8 a @ hex8 b @ hex8 c @ hex8 d @ hex8 e @ hex8 f @ hex8 g @ hex8 h"

fun state_bytes :: "sha_state \<Rightarrow> nat list" where
  "state_bytes (a, b, c, d, e, f, g, h) =
     concat (map (\<lambda>w. [w div 16777216, w div 65536 mod 256, w div 256 mod 256, w mod 256])
               [a, b, c, d, e, f, g, h])"

definition sha256 :: "nat list \<Rightarrow> sha_state" where
  "sha256 m = sha_blocks sha_H0 (sha_pad m)"

definition hmac_key_block :: "nat list \<Rightarrow> nat list" where
  \<comment> \<open>a key longer than a block is hashed first; the key is then padded with zeros\<close>
  "hmac_key_block key =
     (let k = (if length key > 64 then state_bytes (sha256 key) else key)
      in k @ replicate (64 - length k) 0)"

definition hmac_sha256 :: "nat list \<Rightarrow> nat list \<Rightarrow> sha_state" where
  "hmac_sha256 key msg =
     (let k = hmac_key_block key;
          ipad = map (\<lambda>b. b XOR 0x36) k;
          opad = map (\<lambda>b. b XOR 0x5c) k
      in sha256 (opad @ state_bytes (sha256 (ipad @ msg))))"

definition utf8 :: "string \<Rightarrow> nat list" where
  \<comment> \<open>the UTF-8 bytes of a string of codes 0..255\<close>
  "utf8 s = concat (map (\<lambda>c. if (of_char c :: nat) < 128 then [of_char c]
                               else [192 + of_char c div 64, 128 + of_char c mod 64]) s)"

definition hmacHex :: "string \<Rightarrow> string \<Rightarrow> string" where
  \<comment> \<open>\<open>crypto.createHmac('sha256', key).update(data).digest('hex')\<close>\<close>
  "hmacHex key data = state_hex (hmac_sha256 (utf8 key) (utf8 data))"

subsection \<open>\<open>mask\<close> and \<open>maskPayload\<close>\<close>

text \<open>
  The environment variable \<open>GIGAFLAIR_MASTER_KEY\<close> is the argument \<open>masterKey\<close>, \<open>None\<close> when it
  is unset. A payload is a JSON-like value; an object is the list of its entries in the order
  of \<open>Object.entries\<close>.
\<close>

definition mask_data :: "string option \<Rightarrow> string \<Rightarrow> error + string" where
  \<comment> \<open>\<open>MaskingService.mask\<close>\<close>
  "mask_data masterKey data =
     (if data = [] then Inr data
      else if \<not> truthy masterKey then Inl MasterKeyMissing
      else Inr (''MASKED_'' @ substring (hmacHex (the masterKey) data) 0 16))"

datatype jsvalue =
    JUndefined
  | JNull
  | JBool bool
  | JNumber number
  | JString string
  | JArray "jsvalue list"
  | JObject "(string \<times> jsvalue) list"

definition falsy :: "jsvalue \<Rightarrow> bool" where
  \<comment> \<open>\<open>!payload\<close>\<close>
  "falsy v = (v = JUndefined \<or> v = JNull \<or> v = JBool False \<or> v = JNumber (Num 0)
              \<or> v = JNumber NaN \<or> v = JString [])"

definition lowerChar :: "char \<Rightarrow> char" where
  \<comment> \<open>\<open>toLowerCase\<close> of one character of code 0..255\<close>
  "lowerChar c =
     (if (65 \<le> (of_char c :: nat) \<and> (of_char c :: nat) \<le> 90)
         \<or> (192 \<le> (of_char c :: nat) \<and> (of_char c :: nat) \<le> 222 \<and> (of_char c :: nat) \<noteq> 215)
      then char_of ((of_char c :: nat) + 32) else c)"

definition toLowerCase :: "string \<Rightarrow> string" where
  "toLowerCase s = map lowerChar s"

fun strIncludes :: "string \<Rightarrow> string \<Rightarrow> bool" where
  \<comment> \<open>\<open>s.includes(sub)\<close>\<close>
  "strIncludes [] sub = (sub = [])"
| "strIncludes (c # cs) sub = (startsWith (c # cs) sub \<or> strIncludes cs sub)"

definition isSecretKey :: "string \<Rightarrow> bool" where
  "isSecretKey key =
     (strIncludes (toLowerCase key) ''password'' \<or> strIncludes (toLowerCase key) ''pin''
      \<or> key = ''CQ'' \<or> key = ''CO'')"

definition isPiiKey :: "string \<Rightarrow> bool" where
  "isPiiKey key =
     (strIncludes (toLowerCase key) ''patronidentifier''
      \<or> strIncludes (toLowerCase key) ''patronbarcode''
      \<or> strIncludes (toLowerCase key) ''itemidentifier''
      \<or> strIncludes (toLowerCase key) ''itembarcode''
      \<or> strIncludes (toLowerCase key) ''personalname''
      \<or> key = ''AA'' \<or> key = ''AB'' \<or> key = ''AE'')"

fun collect :: "(error + 'a) list \<Rightarrow> error + 'a list" where
  \<comment> \<open>the results of a loop whose first throw ends it\<close>
  "collect [] = Inr []"
| "collect (r # rs) =
     (case r of
        Inl e \<Rightarrow> Inl e
      | Inr v \<Rightarrow> (case collect rs of Inl e \<Rightarrow> Inl e | Inr vs \<Rightarrow> Inr (v # vs)))"

fun maskPayload :: "string option \<Rightarrow> jsvalue \<Rightarrow> error + jsvalue" where
  "maskPayload masterKey (JArray items) =
     map_sum id JArray (collect (map (maskPayload masterKey) items))"
| "maskPayload masterKey (JObject entries) =
     map_sum id JObject (collect (map (\<lambda>entry.
        if isSecretKey (fst entry) then
          Inr (fst entry, case snd entry of JString s \<Rightarrow> JString ''********'' | v \<Rightarrow> v)
        else if isPiiKey (fst entry) then
          (case snd entry of
             JString s \<Rightarrow> map_sum id (\<lambda>m. (fst entry, JString m)) (mask_data masterKey s)
           | v \<Rightarrow> Inr (fst entry, v))
        else map_sum id (\<lambda>v. (fst entry, v)) (maskPayload masterKey (snd entry))) entries))"
| "maskPayload masterKey payload = Inr payload"

definition barcode_payload :: "string \<Rightarrow> string \<Rightarrow> jsvalue" where
  \<comment> \<open>the payload \<open>{patronBarcode: barcode, password: password}\<close>\<close>
  "barcode_payload barcode password =
     JObject [(''patronBarcode'', JString barcode), (''password'', JString password)]"

subsection \<open>The key of the repository's tests\<close>

text \<open>
  The tests set the master key to \<open>test-master-key\<close>. The two blocks below are that key padded
  to 64 bytes and combined with the inner and the outer pad of HMAC.
\<close>

definition test_key_ipad :: "nat list" where
  \<comment> \<open>the key \<open>test-master-key\<close>, padded to a block, xor \<open>0x36\<close>\<close>
  "test_key_ipad =
      [66, 83, 69, 66, 27, 91, 87, 69, 66, 83, 68, 27, 93, 83, 79, 54, 54, 54, 54, 54, 54, 54,
       54, 54, 54, 54, 54, 54, 54, 54, 54, 54, 54, 54, 54, 54, 54, 54, 54, 54, 54, 54, 54, 54,
       54, 54, 54, 54, 54, 54, 54, 54, 54, 54, 54, 54, 54, 54, 54, 54, 54, 54, 54, 54]"

definition test_key_opad :: "nat list" where
  \<comment> \<open>the key \<open>test-master-key\<close>, padded to a block, xor \<open>0x5c\<close>\<close>
  "test_key_opad =
      [40, 57, 47, 40, 113, 49, 61, 47, 40, 57, 46, 113, 55, 57, 37, 92, 92, 92, 92, 92, 92,
       92, 92, 92, 92, 92, 92, 92, 92, 92, 92, 92, 92, 92, 92, 92, 92, 92, 92, 92, 92, 92, 92,
       92, 92, 92, 92, 92, 92, 92, 92, 92, 92, 92, 92, 92, 92, 92, 92, 92, 92, 92, 92, 92]"

section \<open>Circuit breaker (SipConnectionManager.ts, types/index.ts)\<close>

text \<open>
  The breaker record of one branch, and the three methods that mutate it, as functions from
  the record to the updated record. \<open>Date.now()\<close> is an argument: milliseconds since the epoch,
  a natural number. \<open>BACKOFF_SCHEDULE\<close> depends on \<open>NODE_ENV\<close>, which is the argument
  \<open>testEnv\<close>.
\<close>

datatype CircuitState = CLOSED | OPEN | HALF_OPEN

record CircuitBreaker =
  state :: CircuitState
  failureCount :: nat
  lastFailureAt :: "nat option"
  nextRetryAt :: "nat option"
  backoffIndex :: nat
  halfOpenLocked :: bool

definition BACKOFF_SCHEDULE :: "bool \<Rightarrow> nat list" where
  "BACKOFF_SCHEDULE testEnv =
     (if testEnv then [200, 400, 600] else [5000, 10000, 20000, 40000, 60000])"

definition FAILURE_THRESHOLD :: nat where
  "FAILURE_THRESHOLD = 3"

definition newBreaker :: CircuitBreaker where
  \<comment> \<open>the record the constructor stores for each configured branch\<close>
  "newBreaker = \<lparr>state = CLOSED, failureCount = 0, lastFailureAt = None, nextRetryAt = None,
                 backoffIndex = 0, halfOpenLocked = False\<rparr>"

definition constructBreakers :: "string list \<Rightarrow> (string \<rightharpoonup> CircuitBreaker)" where
  \<comment> \<open>the constructor's loop over the configurations, by their \<open>branchId\<close>\<close>
  "constructBreakers branchIds = foldl (\<lambda>breakers branchId. breakers(branchId \<mapsto> newBreaker)) Map.empty branchIds"

definition retryDue :: "nat \<Rightarrow> CircuitBreaker \<Rightarrow> bool" where
  \<comment> \<open>\<open>breaker.state === 'OPEN' && breaker.nextRetryAt && Date.now() >= breaker.nextRetryAt\<close>;
     \<open>null\<close> and \<open>0\<close> are falsy\<close>
  "retryDue now breaker =
     (state breaker = OPEN
      \<and> (case nextRetryAt breaker of None \<Rightarrow> False | Some t \<Rightarrow> t \<noteq> 0 \<and> now \<ge> t))"

definition getCircuitState :: "nat \<Rightarrow> CircuitBreaker \<Rightarrow> CircuitState \<times> CircuitBreaker" where
  "getCircuitState now breaker =
     (let breaker = (if retryDue now breaker then breaker\<lparr>state := HALF_OPEN\<rparr> else breaker)
      in (state breaker, breaker))"

datatype gate_error = CircuitOpen | ProbeInFlight

definition getClient :: "nat \<Rightarrow> CircuitBreaker \<Rightarrow> (gate_error + unit) \<times> CircuitBreaker" where
  \<comment> \<open>the breaker gate of \<open>getClient\<close>; \<open>Inr ()\<close> when the call goes on to look up or create
     the client, which does not touch the breaker\<close>
  "getClient now breaker =
     (let breaker = (if retryDue now breaker
                     then breaker\<lparr>state := HALF_OPEN, halfOpenLocked := False\<rparr>
                     else breaker)
      in if state breaker = OPEN then (Inl CircuitOpen, breaker)
         else if state breaker = HALF_OPEN then
           (if halfOpenLocked breaker then (Inl ProbeInFlight, breaker)
            else (Inr (), breaker\<lparr>halfOpenLocked := True\<rparr>))
         else (Inr (), breaker))"

definition recordSuccess :: "CircuitBreaker \<Rightarrow> CircuitBreaker" where
  "recordSuccess breaker =
     breaker\<lparr>state := CLOSED, failureCount := 0, backoffIndex := 0, nextRetryAt := None,
             halfOpenLocked := False\<rparr>"

definition backoffAt :: "nat list \<Rightarrow> nat \<Rightarrow> nat" where
  \<comment> \<open>\<open>BACKOFF_SCHEDULE[i] || BACKOFF_SCHEDULE[BACKOFF_SCHEDULE.length - 1]\<close>\<close>
  "backoffAt schedule i =
     (if i < length schedule \<and> schedule ! i \<noteq> 0 then schedule ! i
      else schedule ! (length schedule - 1))"

definition recordFailure :: "bool \<Rightarrow> nat \<Rightarrow> nat \<Rightarrow> CircuitBreaker \<Rightarrow> CircuitBreaker" where
  \<comment> \<open>\<open>failedAt\<close> and \<open>openedAt\<close> are the two readings of \<open>Date.now()\<close>\<close>
  "recordFailure testEnv failedAt openedAt breaker =
     (let breaker = breaker\<lparr>failureCount := failureCount breaker + 1,
                             lastFailureAt := Some failedAt, halfOpenLocked := False\<rparr>
      in if failureCount breaker \<ge> FAILURE_THRESHOLD \<or> state breaker = HALF_OPEN then
           (let breaker = breaker\<lparr>state := OPEN\<rparr>;
                backoff = backoffAt (BACKOFF_SCHEDULE testEnv) (backoffIndex breaker);
                breaker = breaker\<lparr>nextRetryAt := Some (openedAt + backoff)\<rparr>
            in if backoffIndex breaker < length (BACKOFF_SCHEDULE testEnv) - 1
               then breaker\<lparr>backoffIndex := backoffIndex breaker + 1\<rparr>
               else breaker)
         else breaker)"

datatype breaker_call =
    RecordFailure nat nat
  | RecordSuccess
  | GetClient nat
  | GetCircuitState nat

fun breakerStep :: "bool \<Rightarrow> CircuitBreaker \<Rightarrow> breaker_call \<Rightarrow> CircuitBreaker" where
  "breakerStep testEnv breaker (RecordFailure failedAt openedAt) =
     recordFailure testEnv failedAt openedAt breaker"
| "breakerStep testEnv breaker RecordSuccess = recordSuccess breaker"
| "breakerStep testEnv breaker (GetClient now) = snd (getClient now breaker)"
| "breakerStep testEnv breaker (GetCircuitState now) = snd (getCircuitState now breaker)"

definition breakerAfter :: "bool \<Rightarrow> breaker_call list \<Rightarrow> CircuitBreaker" where
  \<comment> \<open>the record of a branch after a sequence of calls on a fresh manager\<close>
  "breakerAfter testEnv calls = foldl (breakerStep testEnv) newBreaker calls"

fun countCall :: "nat \<Rightarrow> breaker_call \<Rightarrow> nat" where
  "countCall n (RecordFailure failedAt openedAt) = n + 1"
| "countCall n RecordSuccess = 0"
| "countCall n (GetClient now) = n"
| "countCall n (GetCircuitState now) = n"

definition consecutiveFailures :: "breaker_call list \<Rightarrow> nat" where
  \<comment> \<open>the specification's count: the failures recorded since the last recorded success, or
     since the start when no success was recorded\<close>
  "consecutiveFailures calls = foldl countCall 0 calls"

definition count_inv :: "nat \<Rightarrow> CircuitBreaker \<Rightarrow> bool" where
  \<comment> \<open>the record's counter is the count \<open>n\<close>, and the record is \<open>CLOSED\<close> exactly below the
     threshold\<close>
  "count_inv n b = (failureCount b = n \<and> (state b = CLOSED) = (n < FAILURE_THRESHOLD))"

definition breaker_inv :: "bool \<Rightarrow> CircuitBreaker \<Rightarrow> bool" where
  \<comment> \<open>what holds of every record the calls can produce\<close>
  "breaker_inv testEnv b =
     ((state b = OPEN \<longrightarrow> (\<exists>t. nextRetryAt b = Some t \<and> 0 < t))
      \<and> backoffIndex b < length (BACKOFF_SCHEDULE testEnv))"

subsection \<open>The parser's contract as the specification words it\<close>

definition ext_lookup :: "fields option \<Rightarrow> string \<Rightarrow> string option" where
  \<comment> \<open>the value of a tag in \<open>extensions\<close>, \<open>None\<close> when the tag or the whole mapping is absent\<close>
  "ext_lookup ext tag = (case ext of None \<Rightarrow> None | Some e \<Rightarrow> map_of e tag)"

definition extensions_spec :: "string list \<Rightarrow> fields \<Rightarrow> fields option \<Rightarrow> bool" where
  \<comment> \<open>\<open>extensions\<close> holds exactly the discovered tags outside the known set and \<open>AY\<close>/\<open>AZ\<close>,
     with their values, and is omitted rather than empty\<close>
  "extensions_spec known discovered ext =
     ((\<forall>tag. ext_lookup ext tag =
          (if tag \<in> set known \<or> tag = ''AY'' \<or> tag = ''AZ'' then None else map_of discovered tag))
      \<and> ext \<noteq> Some [])"

definition keepTag :: "string list \<Rightarrow> string \<Rightarrow> bool" where
  "keepTag known tag = (\<not> (tag = ''AY'' \<or> tag = ''AZ'') \<and> tag \<notin> set known)"












section \<open>Proofs\<close>

subsection \<open>Checksum codec\<close>

lemma foldl_charCode_sum:
  "foldl (\<lambda>sum c. sum + of_char c) (a::nat) m = a + sum_list (map of_char m)"
  by (induction m arbitrary: a) simp_all

lemma upper_digitChar_all:
  "list_all (\<lambda>d. upperChar (digitChar d) = hexUpper d)
     [0, 1, 2, 3, 4, 5, 6, 7, 8, 9, 10, 11, 12, 13, 14, 15]"
  by (simp add: upperChar_def digitChar_def hexUpper_def)

lemma below_16_cases:
  "d < 16 \<Longrightarrow> d \<in> set [0, 1, 2, 3, 4, 5, 6, 7, 8, 9, 10, 11, 12, 13, 14, 15::nat]"
  by (simp only: set_simps insert_iff empty_iff) arith

lemma upper_digitChar: "d < 16 \<Longrightarrow> upperChar (digitChar d) = hexUpper d"
  using upper_digitChar_all below_16_cases [of d] by (simp only: list_all_iff)

lemma mask16: "(0xFFFF :: 32 word) = mask 16"
  by (simp add: mask_eq_exp_minus_1)

lemma neg_and_mask:
  "unat ((- (word_of_nat s :: 32 word)) AND 0xFFFF) = nat ((- int s) mod 65536)"
proof -
  have w: "(- (word_of_nat s :: 32 word)) = word_of_int (- int s)"
    by simp
  have "uint ((- (word_of_nat s :: 32 word)) AND 0xFFFF)
      = take_bit 16 (uint (word_of_int (- int s) :: 32 word))"
    unfolding mask16 w by (simp only: flip: take_bit_eq_mask unsigned_take_bit_eq)
  also have "\<dots> = take_bit 16 (take_bit 32 (- int s))"
    by (simp only: uint_word_of_int_eq) simp
  also have "\<dots> = take_bit 16 (- int s)"
    by simp
  also have "\<dots> = (- int s) mod 65536"
    by (simp add: take_bit_eq_mod)
  finally show ?thesis
    by (simp add: unat_eq_nat_uint)
qed

lemma toString16_lt16: "n < 16 \<Longrightarrow> toStringRadix 16 n = [digitChar n]"
  by (subst toStringRadix.simps) simp

lemma toString16_step:
  "16 \<le> n \<Longrightarrow> toStringRadix 16 n = toStringRadix 16 (n div 16) @ [digitChar (n mod 16)]"
  by (subst toStringRadix.simps) simp

lemma replicate_small:
  "replicate 3 c = [c, c, c]" "replicate 2 c = [c, c]"
  by (simp_all add: numeral_3_eq_3 numeral_2_eq_2)

lemma hex_render:
  assumes "n < 65536"
  shows "padStart (toUpperCase (toStringRadix 16 n)) 4 CHR ''0'' = hex4 n"
proof -
  have z: "hexUpper 0 = CHR ''0''" by (simp add: hexUpper_def)
  consider "n < 16" | "16 \<le> n" "n < 256" | "256 \<le> n" "n < 4096" | "4096 \<le> n" "n < 65536"
    using assms by linarith
  then show ?thesis
  proof cases
    case 1
    then show ?thesis
      by (simp add: toString16_lt16 padStart_def toUpperCase_def hex4_def upper_digitChar z replicate_small)
  next
    case 2
    then have a: "n div 16 < 16" by simp
    from 2 a show ?thesis
      by (simp add: toString16_step toString16_lt16 padStart_def toUpperCase_def hex4_def
          upper_digitChar z replicate_small)
  next
    case 3
    then have a: "n div 16 div 16 < 16" "16 \<le> n div 16" "16 \<le> n" by simp_all
    have b: "n div 256 = n div 16 div 16" by (simp add: div_mult2_eq)
    from 3 a show ?thesis
      by (simp add: toString16_step toString16_lt16 padStart_def toUpperCase_def hex4_def
          upper_digitChar z b replicate_small)
  next
    case 4
    then have a: "n div 16 div 16 div 16 < 16" "16 \<le> n div 16 div 16" "16 \<le> n div 16" "16 \<le> n"
      by simp_all
    have b: "n div 256 = n div 16 div 16" "n div 4096 = n div 16 div 16 div 16"
      by (simp_all add: div_mult2_eq)
    from 4 a show ?thesis
      by (simp add: toString16_step toString16_lt16 padStart_def toUpperCase_def hex4_def
          upper_digitChar z b replicate_small)
  qed
qed

lemma calculateChecksum_spec: "calculateChecksum message = spec_checksum message"
proof -
  have "nat ((- int (sum_list (map of_char message))) mod 65536) < 65536"
    by simp
  then show ?thesis
    unfolding calculateChecksum_def spec_checksum_def Let_def foldl_charCode_sum neg_and_mask
    by (simp only: hex_render add_0)
qed

lemma hexUpper_all:
  "list_all (\<lambda>d. isHexDigit (hexUpper d) \<and> upperChar (hexUpper d) = hexUpper d)
     [0, 1, 2, 3, 4, 5, 6, 7, 8, 9, 10, 11, 12, 13, 14, 15]"
  by (simp add: upperChar_def hexUpper_def isHexDigit_def isDigit_def)

lemma hexUpper_props:
  "d < 16 \<Longrightarrow> isHexDigit (hexUpper d) \<and> upperChar (hexUpper d) = hexUpper d"
  using hexUpper_all below_16_cases [of d] by (simp only: list_all_iff)

lemma hex4_props:
  "length (hex4 v) = 4" "list_all isHexDigit (hex4 v)" "toUpperCase (hex4 v) = hex4 v"
  by (simp_all add: hex4_def toUpperCase_def hexUpper_props)

lemma calculateChecksum_props:
  "length (calculateChecksum m) = 4" "list_all isHexDigit (calculateChecksum m)"
  "toUpperCase (calculateChecksum m) = calculateChecksum m"
  by (simp_all add: calculateChecksum_spec spec_checksum_def hex4_props)

lemma CR_not_hex: "\<not> isHexDigit (CHR 0x0D)"
  by (simp add: isHexDigit_def isDigit_def)

lemma stripCR_plain:
  assumes "length h = 4" "list_all isHexDigit h"
  shows "stripCR (p @ ''AZ'' @ h) = p @ ''AZ'' @ h"
proof -
  from assms(1) have "h \<noteq> []" by auto
  then have "last (p @ ''AZ'' @ h) = last h" by simp
  moreover have "isHexDigit (last h)"
    using \<open>h \<noteq> []\<close> assms(2) by (simp add: list_all_iff)
  ultimately have "last (p @ ''AZ'' @ h) \<noteq> CHR 0x0D"
    using CR_not_hex by auto
  then show ?thesis by (simp add: stripCR_def)
qed

lemma stripCR_cr: "stripCR (p @ ''AZ'' @ h @ [CHR 0x0D]) = p @ ''AZ'' @ h"
  by (simp add: stripCR_def butlast_append)

lemma stripCR_cases: "f = stripCR f \<or> f = stripCR f @ [CHR 0x0D]"
  by (auto simp add: stripCR_def) (metis append_butlast_last_id)

lemma trailer_parts:
  assumes "length h = 4" "list_all isHexDigit h" "stripCR f = p @ ''AZ'' @ h"
  shows "trailer_ok f" "length (stripCR f) - 6 = length p" "trailer_hex f = h"
    "trailer_prefix f = p @ ''AZ''"
  using assms by (simp_all add: trailer_ok_def trailer_hex_def trailer_prefix_def)

lemma trailerAt_intro:
  assumes "length h = 4" "list_all isHexDigit h"
    and "f = p @ ''AZ'' @ h \<or> f = p @ ''AZ'' @ h @ [CHR 0x0D]"
  shows "trailerAt f (length p)"
  using assms by (auto simp add: trailerAt_def)

lemma trailerAt_elim:
  assumes "trailerAt f i"
  shows "\<exists>p h. length p = i \<and> length h = 4 \<and> list_all isHexDigit h
           \<and> (f = p @ ''AZ'' @ h \<or> f = p @ ''AZ'' @ h @ [CHR 0x0D])"
proof -
  from assms have az: "take 2 (drop i f) = ''AZ''"
    and l4: "length (take 4 (drop (i + 2) f)) = 4"
    and hx: "list_all isHexDigit (take 4 (drop (i + 2) f))"
    and tl: "drop (i + 6) f = [CHR 0x0D] \<or> drop (i + 6) f = []"
    by (simp_all add: trailerAt_def)
  from l4 have len: "i + 6 \<le> length f" by simp
  have "drop i f = take 2 (drop i f) @ drop 2 (drop i f)"
    by (simp only: append_take_drop_id)
  then have d1: "drop i f = ''AZ'' @ drop (i + 2) f"
    using az by (simp add: add.commute)
  have "drop (i + 2) f = take 4 (drop (i + 2) f) @ drop 4 (drop (i + 2) f)"
    by (simp only: append_take_drop_id)
  then have d2: "drop (i + 2) f = take 4 (drop (i + 2) f) @ drop (i + 6) f"
    by (simp add: add.commute)
  have "f = take i f @ drop i f" by simp
  with d1 d2 have f: "f = take i f @ ''AZ'' @ take 4 (drop (i + 2) f) @ drop (i + 6) f"
    by simp
  have lp: "length (take i f) = i" using len by simp
  from tl f have "f = take i f @ ''AZ'' @ take 4 (drop (i + 2) f)
      \<or> f = take i f @ ''AZ'' @ take 4 (drop (i + 2) f) @ [CHR 0x0D]"
    by auto
  with lp l4 hx show ?thesis by blast
qed

lemma trailer_ok_elim:
  assumes "trailer_ok f"
  shows "\<exists>p h. length h = 4 \<and> list_all isHexDigit h \<and> stripCR f = p @ ''AZ'' @ h"
proof -
  let ?g = "stripCR f"
  from assms have l: "6 \<le> length ?g"
    and az: "drop (length ?g - 6) (take (length ?g - 4) ?g) = ''AZ''"
    and hx: "list_all isHexDigit (drop (length ?g - 4) ?g)"
    by (simp_all add: trailer_ok_def trailer_hex_def trailer_prefix_def)
  define a where "a = take (length ?g - 4) ?g"
  define b where "b = drop (length ?g - 4) ?g"
  define c where "c = take (length ?g - 6) a"
  have g: "?g = a @ b" by (simp add: a_def b_def)
  have "a = c @ drop (length ?g - 6) a" by (simp add: c_def)
  with az have "a = c @ ''AZ''" by (simp only: a_def)
  with g have "?g = c @ ''AZ'' @ b" by simp
  moreover have "length b = 4" using l by (simp add: b_def)
  moreover have "list_all isHexDigit b" using hx by (simp only: b_def)
  ultimately show ?thesis by blast
qed

lemma trailerAt_iff: "trailerAt f i \<longleftrightarrow> trailer_ok f \<and> i = length (stripCR f) - 6"
proof
  assume "trailerAt f i"
  then obtain p h where ph: "length p = i" "length h = 4" "list_all isHexDigit h"
    "f = p @ ''AZ'' @ h \<or> f = p @ ''AZ'' @ h @ [CHR 0x0D]"
    using trailerAt_elim by blast
  then have "stripCR f = p @ ''AZ'' @ h"
    using stripCR_plain stripCR_cr by metis
  with ph show "trailer_ok f \<and> i = length (stripCR f) - 6"
    using trailer_parts(1,2) [of h f p] by simp
next
  assume a: "trailer_ok f \<and> i = length (stripCR f) - 6"
  then obtain p h where ph: "length h = 4" "list_all isHexDigit h" "stripCR f = p @ ''AZ'' @ h"
    using trailer_ok_elim by blast
  with a have i: "i = length p" by simp
  from stripCR_cases [of f] ph(3) have "f = p @ ''AZ'' @ h \<or> f = p @ ''AZ'' @ h @ [CHR 0x0D]"
    by auto
  with ph(1,2) show "trailerAt f i"
    unfolding i by (rule trailerAt_intro)
qed

lemma trailerMatch_eq:
  "trailerMatch f = (if trailer_ok f then Some (length (stripCR f) - 6) else None)"
proof (cases "trailer_ok f")
  case False
  then show ?thesis
    by (simp add: trailerMatch_def find_None_iff trailerAt_iff)
next
  case True
  have "length (stripCR f) \<le> length f"
    by (simp add: stripCR_def)
  then have m: "length (stripCR f) - 6 \<in> set [0..<Suc (length f)]"
    by (simp only: set_upt atLeastLessThan_iff) arith
  obtain x where x: "find (trailerAt f) [0..<Suc (length f)] = Some x"
    using m True by (cases "find (trailerAt f) [0..<Suc (length f)]")
      (auto simp add: find_None_iff trailerAt_iff)
  then have "trailerAt f x"
    by (auto simp add: find_Some_iff)
  with x True show ?thesis
    by (simp add: trailerMatch_def trailerAt_iff)
qed

lemma verifyChecksum_eq:
  "verifyChecksum f \<longleftrightarrow>
     trailer_ok f \<and> calculateChecksum (trailer_prefix f) = toUpperCase (trailer_hex f)"
proof (cases "trailer_ok f")
  case False
  then show ?thesis by (simp add: verifyChecksum_def trailerMatch_eq)
next
  case True
  then obtain p h where ph: "length h = 4" "list_all isHexDigit h" "stripCR f = p @ ''AZ'' @ h"
    using trailer_ok_elim by blast
  from stripCR_cases [of f] ph(3) have f: "f = p @ ''AZ'' @ h \<or> f = p @ ''AZ'' @ h @ [CHR 0x0D]"
    by auto
  have t: "length (stripCR f) - 6 = length p" "trailer_hex f = h" "trailer_prefix f = p @ ''AZ''"
    using trailer_parts [OF ph] by simp_all
  from f ph(1) have "take 4 (drop (length p + 2) f) = h \<and> take (length p + 2) f = p @ ''AZ''"
    by auto
  with True show ?thesis
    by (simp add: verifyChecksum_def trailerMatch_eq t substring_def)
qed

lemma verify_append:
  assumes "seqNum \<le> 9"
  shows "\<exists>frame. appendChecksum message seqNum = Inr frame \<and> verifyChecksum frame"
proof -
  define pm where "pm = message @ ''AY'' @ substring (numberToString seqNum) 0 1"
  define cs where "cs = calculateChecksum (pm @ ''AZ'')"
  have a: "appendChecksum message seqNum = Inr (pm @ ''AZ'' @ cs @ [CHR 0x0D])"
    using assms by (simp add: appendChecksum_def pm_def cs_def Let_def)
  have c: "length cs = 4" "list_all isHexDigit cs" "toUpperCase cs = cs"
    by (simp_all add: cs_def calculateChecksum_props)
  have "stripCR (pm @ ''AZ'' @ cs @ [CHR 0x0D]) = pm @ ''AZ'' @ cs"
    by (rule stripCR_cr)
  from trailer_parts [OF c(1,2) this] c(3)
  have "verifyChecksum (pm @ ''AZ'' @ cs @ [CHR 0x0D])"
    by (simp add: verifyChecksum_eq cs_def)
  with a show ?thesis by simp
qed


lemma below_10_cases: "d < 10 \<Longrightarrow> d \<in> set [0, 1, 2, 3, 4, 5, 6, 7, 8, 9::nat]"
  by (simp only: set_simps insert_iff empty_iff) arith

lemma seqDigit_ok: "0 \<le> seqNum \<Longrightarrow> seqNum \<le> 9 \<Longrightarrow> substring (numberToString seqNum) 0 1 = [seqDigit seqNum]"
proof -
  assume a: "0 \<le> seqNum" "seqNum \<le> 9"
  then have "nat seqNum < 10" by simp
  then have "nat seqNum \<in> set [0, 1, 2, 3, 4, 5, 6, 7, 8, 9]"
    by (rule below_10_cases)
  moreover have "list_all (\<lambda>d. digitChar d = ''0123456789'' ! d) [0, 1, 2, 3, 4, 5, 6, 7, 8, 9]"
    by (simp add: digitChar_def)
  ultimately have "digitChar (nat seqNum) = seqDigit seqNum"
    by (simp only: list_all_iff seqDigit_def)
  moreover have "toStringRadix 10 (nat seqNum) = [digitChar (nat seqNum)]"
    using \<open>nat seqNum < 10\<close> by (subst toStringRadix.simps) simp
  ultimately show ?thesis
    using a by (simp add: numberToString_def substring_def)
qed

text \<open>
  Claim C7. \<open>calculateChecksum\<close> sums the character codes of the message, negates the sum
  modulo 65536 and renders the 16-bit value as four uppercase hex digits. For a sequence
  number in 0..9, \<open>appendChecksum\<close> returns the body, \<open>AY\<close>, the sequence digit, \<open>AZ\<close>, the
  checksum of everything up to and including \<open>AZ\<close>, and a carriage return. For a sequence
  number above 9 it fails with \<open>InvalidSequence\<close>.
\<close>
theorem checksum_codec:
  "calculateChecksum message = spec_checksum message
   \<and> (0 \<le> seqNum \<and> seqNum \<le> 9 \<longrightarrow>
        appendChecksum body seqNum =
          Inr (body @ ''AY'' @ [seqDigit seqNum] @ ''AZ''
               @ spec_checksum (body @ ''AY'' @ [seqDigit seqNum] @ ''AZ'') @ [CHR 0x0D]))
   \<and> (9 < seqNum \<longrightarrow> appendChecksum body seqNum = Inl InvalidSequence)"
  using seqDigit_ok [of seqNum]
  by (simp add: calculateChecksum_spec appendChecksum_def Let_def)

theorem checksum_codec_witness:
  "calculateChecksum ''9300CNadmin|COpassword|CPMainLib|AY0AZ'' = ''F28D''
   \<and> appendChecksum ''9300CNadmin|COpassword|CPMainLib|'' 0
       = Inr (''9300CNadmin|COpassword|CPMainLib|AY0AZF28D'' @ [CHR 0x0D])
   \<and> appendChecksum ''9300CNadmin|COpassword|CPMainLib|'' 10 = Inl InvalidSequence"
  using checksum_codec [of "''9300CNadmin|COpassword|CPMainLib|AY0AZ''" 0 "''9300CNadmin|COpassword|CPMainLib|''"]
    checksum_codec [of "[]" 10 "''9300CNadmin|COpassword|CPMainLib|''"]
  by (simp add: spec_checksum_def hex4_def hexUpper_def seqDigit_def)

text \<open>
  Claim C3, as amended. \<open>verifyChecksum\<close> never raises. It returns true exactly when the frame
  ends, ignoring an optional trailing carriage return, with \<open>AZ\<close> and four hex digits and those
  digits, compared case-insensitively, are the checksum of the prefix up to and including
  \<open>AZ\<close>. So it returns false when the trailer is malformed and false when the digits differ.
\<close>

theorem verify_outcome:
  "verifyChecksum_outcome frame =
     Inr (trailer_ok frame \<and> toUpperCase (trailer_hex frame) = spec_checksum (trailer_prefix frame))"
  by (auto simp add: verifyChecksum_outcome_def verifyChecksum_eq calculateChecksum_spec)

text \<open>
  Claim C3 as stated fails: a frame whose trailer tag is broken makes \<open>verifyChecksum\<close> return
  false, it does not raise \<open>MalformedTrailer\<close>.
\<close>

theorem verify_malformed_counterexample:
  "\<not> trailer_ok ''9300CNadmin|AY0AX1234'' 
   \<and> verifyChecksum_outcome ''9300CNadmin|AY0AX1234'' = Inr False
   \<and> verifyChecksum_outcome ''9300CNadmin|AY0AX1234'' \<noteq> Inl MalformedTrailer"
  by (simp add: verifyChecksum_outcome_def verifyChecksum_eq trailer_ok_def trailer_prefix_def stripCR_def)

lemma valid_append: "seqNum \<le> 9 \<Longrightarrow> valid_frame (appendChecksum msg seqNum)"
  using verify_append [of seqNum msg] by (auto simp add: valid_frame_def)

text \<open>
  Claim C1. For each of the fifteen command formatters, all field values and every sequence
  number in 0..9, the formatter returns a frame and \<open>verifyChecksum\<close> accepts that frame.
\<close>
theorem formatted_frames_verify:
  assumes "0 \<le> seqNum" and "seqNum \<le> 9"
  shows "valid_frame (formatPatronStatusRequest now barcode inst seqNum language)
    \<and> valid_frame (formatLoginRequest uid pwd locationCode seqNum)
    \<and> valid_frame (formatCheckoutRequest now patron item inst seqNum patronPin)
    \<and> valid_frame (formatCheckinRequest now item inst seqNum)
    \<and> valid_frame (formatItemInformationRequest now item inst seqNum)
    \<and> valid_frame (formatRenewRequest now patron item inst seqNum patronPin)
    \<and> valid_frame (formatFeePaidRequest now patron feeId amount inst seqNum feeTy
          paymentType currency)
    \<and> valid_frame (formatPatronInformationRequest now patron summary startItem endItem
          inst seqNum language)
    \<and> valid_frame (formatHoldRequest now holdMode patron optItem expiryDate
          pickup inst seqNum title)
    \<and> valid_frame (formatRenewAllRequest now patron inst seqNum)
    \<and> valid_frame (formatEndSessionRequest now patron inst seqNum)
    \<and> valid_frame (formatSCStatusRequest seqNum)
    \<and> valid_frame (formatBlockPatronRequest now patron cardRetained blockedCardMessage
          inst seqNum)
    \<and> valid_frame (formatItemStatusUpdateRequest now item marker inst seqNum)
    \<and> valid_frame (formatPatronEnableRequest now patron patronPin inst seqNum)"
  unfolding formatPatronStatusRequest_def formatLoginRequest_def formatCheckoutRequest_def
    formatCheckinRequest_def formatItemInformationRequest_def formatRenewRequest_def
    formatFeePaidRequest_def formatPatronInformationRequest_def formatHoldRequest_def
    formatRenewAllRequest_def formatEndSessionRequest_def formatSCStatusRequest_def
    formatBlockPatronRequest_def formatItemStatusUpdateRequest_def formatPatronEnableRequest_def
    Let_def
  using assms(2) by (simp only: valid_append simp_thms)

subsection \<open>Field sanitizer\<close>

text \<open>
  Claim C8. \<open>sanitizeSipField\<close> returns its input without the characters \<open>|\<close>, carriage
  return, line feed and the codes 0x00..0x1F. Sanitizing twice is sanitizing once; the output
  holds none of those characters, and every other character (code at least 0x20, not \<open>|\<close>)
  is kept, in order.
\<close>
theorem sanitize_removes_reserved:
  "sanitizeSipField x
     = filter (\<lambda>c. c \<noteq> CHR ''|'' \<and> c \<noteq> CHR 0x0D \<and> c \<noteq> CHR 0x0A \<and> \<not> (of_char c :: nat) \<le> 0x1F) x
   \<and> sanitizeSipField (sanitizeSipField x) = sanitizeSipField x
   \<and> (\<forall>c \<in> set (sanitizeSipField x).
         c \<noteq> CHR ''|'' \<and> c \<noteq> CHR 0x0D \<and> c \<noteq> CHR 0x0A \<and> (0x20::nat) \<le> of_char c)
   \<and> sanitizeSipField x = filter (\<lambda>c. (0x20::nat) \<le> of_char c \<and> c \<noteq> CHR ''|'') x"
proof -
  have k: "\<And>c. (\<not> stripped c) = ((0x20::nat) \<le> of_char c \<and> c \<noteq> CHR ''|'')"
    by (auto simp add: stripped_def)
  have 1: "sanitizeSipField x
     = filter (\<lambda>c. c \<noteq> CHR ''|'' \<and> c \<noteq> CHR 0x0D \<and> c \<noteq> CHR 0x0A \<and> \<not> (of_char c :: nat) \<le> 0x1F) x"
    by (simp add: sanitizeSipField_def stripped_def)
  have 2: "sanitizeSipField (sanitizeSipField x) = sanitizeSipField x"
    by (simp add: sanitizeSipField_def)
  have 3: "\<forall>c \<in> set (sanitizeSipField x).
         c \<noteq> CHR ''|'' \<and> c \<noteq> CHR 0x0D \<and> c \<noteq> CHR 0x0A \<and> (0x20::nat) \<le> of_char c"
    by (auto simp add: sanitizeSipField_def stripped_def)
  have 4: "sanitizeSipField x = filter (\<lambda>c. (0x20::nat) \<le> of_char c \<and> c \<noteq> CHR ''|'') x"
    by (simp only: sanitizeSipField_def k)
  from 1 2 3 4 show ?thesis by (intro conjI)
qed

theorem sanitize_removes_reserved_witness:
  "sanitizeSipField (''P|12'' @ [CHR 0x0D, CHR 0x0A, CHR 0x01] @ ''3 x'') = ''P123 x''
   \<and> sanitizeSipField (sanitizeSipField (''P|12'' @ [CHR 0x0D, CHR 0x0A, CHR 0x01] @ ''3 x''))
       = ''P123 x''
   \<and> CHR ''P'' \<in> set (sanitizeSipField (''P|12'' @ [CHR 0x0D, CHR 0x0A, CHR 0x01] @ ''3 x''))
   \<and> CHR ''|'' \<notin> set (sanitizeSipField (''P|12'' @ [CHR 0x0D, CHR 0x0A, CHR 0x01] @ ''3 x''))"
  using sanitize_removes_reserved [of "''P|12'' @ [CHR 0x0D, CHR 0x0A, CHR 0x01] @ ''3 x''"]
  by (simp add: sanitizeSipField_def stripped_def)

theorem formatted_frames_verify_witness:
  "(0::int) \<le> 5 \<and> (5::int) \<le> 9
   \<and> formatLoginRequest ''admin'' ''password'' ''MainLib'' 0
       = Inr (''9300CNadmin|COpassword|CPMainLib|AY0AZF28D'' @ [CHR 0x0D])
   \<and> valid_frame (formatLoginRequest ''admin'' ''password'' ''MainLib'' 0)
   \<and> valid_frame (formatSCStatusRequest 5)"
proof -
  have h: "(0::int) \<le> 0" "(0::int) \<le> 9" "(0::int) \<le> 5" "(5::int) \<le> 9" by simp_all
  have "formatLoginRequest ''admin'' ''password'' ''MainLib'' 0
       = Inr (''9300CNadmin|COpassword|CPMainLib|AY0AZF28D'' @ [CHR 0x0D])"
    by (simp add: formatLoginRequest_def sanitizeSipField_def stripped_def appendChecksum_def
        calculateChecksum_spec spec_checksum_def hex4_def hexUpper_def numberToString_def
        toStringRadix.simps substring_def digitChar_def)
  then show ?thesis
    using formatted_frames_verify [OF h(1,2), where uid = "''admin''" and pwd = "''password''"
        and locationCode = "''MainLib''"]
      formatted_frames_verify [OF h(3,4)]
    by simp
qed


subsection \<open>Circuit breaker\<close>

lemma backoffAt_pos: "i < length (BACKOFF_SCHEDULE testEnv) \<Longrightarrow> 0 < backoffAt (BACKOFF_SCHEDULE testEnv) i"
  by (auto simp add: backoffAt_def BACKOFF_SCHEDULE_def nth_Cons' split: if_splits)

lemma inv_new: "breaker_inv testEnv newBreaker"
  by (simp add: breaker_inv_def newBreaker_def BACKOFF_SCHEDULE_def)

lemma inv_step: "breaker_inv testEnv b \<Longrightarrow> breaker_inv testEnv (breakerStep testEnv b c)"
proof (cases c)
  case (RecordFailure t1 t2)
  assume i: "breaker_inv testEnv b"
  then have "0 < backoffAt (BACKOFF_SCHEDULE testEnv) (backoffIndex b)"
    by (simp add: breaker_inv_def backoffAt_pos)
  with i show ?thesis
    unfolding RecordFailure
    by (auto simp add: breaker_inv_def recordFailure_def Let_def)
next
  case RecordSuccess
  assume "breaker_inv testEnv b"
  then show ?thesis
    unfolding RecordSuccess
    by (auto simp add: breaker_inv_def recordSuccess_def BACKOFF_SCHEDULE_def)
next
  case (GetClient now)
  assume "breaker_inv testEnv b"
  then show ?thesis
    unfolding GetClient
    by (auto simp add: breaker_inv_def getClient_def Let_def)
next
  case (GetCircuitState now)
  assume "breaker_inv testEnv b"
  then show ?thesis
    unfolding GetCircuitState
    by (auto simp add: breaker_inv_def getCircuitState_def Let_def)
qed

lemma inv_foldl: "breaker_inv testEnv b \<Longrightarrow> breaker_inv testEnv (foldl (breakerStep testEnv) b cs)"
  by (induction cs arbitrary: b) (simp_all add: inv_step)

lemma inv_after: "breaker_inv testEnv (breakerAfter testEnv cs)"
  by (simp add: breakerAfter_def inv_foldl inv_new)

lemma constructBreakers_new:
  "branchId \<in> set branchIds \<Longrightarrow> constructBreakers branchIds branchId = Some newBreaker"
proof -
  have "\<And>m. foldl (\<lambda>breakers branchId. breakers(branchId \<mapsto> newBreaker)) m branchIds branchId
      = (if branchId \<in> set branchIds then Some newBreaker else m branchId)"
    by (induction branchIds) auto
  then show "branchId \<in> set branchIds \<Longrightarrow> constructBreakers branchIds branchId = Some newBreaker"
    by (simp add: constructBreakers_def)
qed

lemma three_failures_open:
  "state (recordFailure e t5 t6 (recordFailure e t3 t4 (recordFailure e t1 t2 b))) = OPEN"
  by (simp add: recordFailure_def Let_def FAILURE_THRESHOLD_def)

lemma below_threshold_closed:
  "state b = CLOSED \<Longrightarrow> failureCount b = 0 \<Longrightarrow>
   state (recordFailure e t1 t2 b) = CLOSED \<and> state (recordFailure e t3 t4 (recordFailure e t1 t2 b)) = CLOSED"
  by (simp add: recordFailure_def Let_def FAILURE_THRESHOLD_def)

lemma open_to_half_open:
  assumes "breaker_inv e b" "state b = OPEN" "nextRetryAt b = Some t" "t \<le> now"
  shows "getClient now b = (Inr (), b\<lparr>state := HALF_OPEN, halfOpenLocked := True\<rparr>)"
  using assms by (auto simp add: getClient_def retryDue_def breaker_inv_def Let_def)

lemma half_open_success:
  "state (recordSuccess b) = CLOSED \<and> failureCount (recordSuccess b) = 0 \<and> backoffIndex (recordSuccess b) = 0"
  by (simp add: recordSuccess_def)

lemma half_open_failure:
  assumes "breaker_inv e b" "state b = HALF_OPEN"
  shows "state (recordFailure e t1 t2 b) = OPEN
    \<and> backoffIndex (recordFailure e t1 t2 b) = min (backoffIndex b + 1) (length (BACKOFF_SCHEDULE e) - 1)"
  using assms by (auto simp add: recordFailure_def breaker_inv_def Let_def min_def)

lemma count_inv_step: "count_inv n b \<Longrightarrow> count_inv (countCall n c) (breakerStep testEnv b c)"
proof (cases c)
  case (RecordFailure t1 t2)
  assume "count_inv n b"
  then show ?thesis
    unfolding RecordFailure
    by (cases "state b") (auto simp add: count_inv_def recordFailure_def Let_def FAILURE_THRESHOLD_def)
next
  case RecordSuccess
  then show ?thesis
    by (simp add: count_inv_def recordSuccess_def FAILURE_THRESHOLD_def)
next
  case (GetClient now)
  assume "count_inv n b"
  then show ?thesis
    unfolding GetClient
    by (auto simp add: count_inv_def getClient_def retryDue_def Let_def)
next
  case (GetCircuitState now)
  assume "count_inv n b"
  then show ?thesis
    unfolding GetCircuitState
    by (auto simp add: count_inv_def getCircuitState_def retryDue_def Let_def)
qed

lemma count_inv_foldl:
  "count_inv n b \<Longrightarrow> count_inv (foldl countCall n cs) (foldl (breakerStep testEnv) b cs)"
  by (induction cs arbitrary: n b) (simp_all add: count_inv_step)

lemma count_inv_after: "count_inv (consecutiveFailures calls) (breakerAfter testEnv calls)"
  unfolding consecutiveFailures_def breakerAfter_def
  by (rule count_inv_foldl) (simp add: count_inv_def newBreaker_def FAILURE_THRESHOLD_def)

lemma breakerAfter_snoc:
  "breakerAfter testEnv (calls @ [c]) = breakerStep testEnv (breakerAfter testEnv calls) c"
  by (simp add: breakerAfter_def)

lemma failure_opens:
  assumes "count_inv n b" and "FAILURE_THRESHOLD \<le> n + 1"
  shows "state (recordFailure testEnv t1 t2 b) = OPEN"
  using assms by (auto simp add: count_inv_def recordFailure_def Let_def)

lemma failure_keeps_closed:
  assumes "count_inv n b" and "n + 1 < FAILURE_THRESHOLD"
  shows "state (recordFailure testEnv t1 t2 b) = CLOSED"
  using assms by (auto simp add: count_inv_def recordFailure_def Let_def)

lemma gate_keeps_count:
  "failureCount (snd (getClient now b)) = failureCount b"
  "failureCount (snd (getCircuitState now b)) = failureCount b"
  "state b = CLOSED \<Longrightarrow> getClient now b = (Inr (), b)"
  "state b = CLOSED \<Longrightarrow> getCircuitState now b = (CLOSED, b)"
  by (auto simp add: getClient_def getCircuitState_def retryDue_def Let_def)

text \<open>
  Claim C2. The record of every configured branch starts \<open>CLOSED\<close> with failure count zero.
  The failure count of a record is the number of failures recorded since the last recorded
  success (or since the start), whatever calls of \<open>getClient\<close> and \<open>getCircuitState\<close> came in
  between, and the record is \<open>CLOSED\<close> exactly while that number is below the threshold of
  three: the failure that brings it to three leaves the record \<open>OPEN\<close>, and a recorded success
  in any state leaves it \<open>CLOSED\<close> with failure count and backoff index zero. In \<open>OPEN\<close>, a
  \<open>getClient\<close> call at or after the earliest-next-retry time moves it to \<open>HALF_OPEN\<close> (before
  that time the call fails with \<open>CircuitOpen\<close> and changes nothing). In \<open>HALF_OPEN\<close>, a recorded
  success moves it to \<open>CLOSED\<close> and zeroes the failure count and the backoff index; a recorded
  failure moves it back to \<open>OPEN\<close> and advances the backoff index by one, capped at the last
  slot of the schedule. The record is any record reached from a fresh one by calls of
  \<open>recordFailure\<close>, \<open>recordSuccess\<close>, \<open>getClient\<close> and \<open>getCircuitState\<close>.
\<close>
theorem breaker_state_machine:
  "(branchId \<in> set branchIds \<longrightarrow>
      constructBreakers branchIds branchId = Some newBreaker
      \<and> state newBreaker = CLOSED \<and> failureCount newBreaker = 0)
   \<and> breakerAfter testEnv [] = newBreaker
   \<and> state (recordFailure testEnv t1 t2 newBreaker) = CLOSED
   \<and> state (recordFailure testEnv t3 t4 (recordFailure testEnv t1 t2 newBreaker)) = CLOSED
   \<and> state (recordFailure testEnv t5 t6 (recordFailure testEnv t3 t4
         (recordFailure testEnv t1 t2 (breakerAfter testEnv calls)))) = OPEN
   \<and> (state (breakerAfter testEnv calls) = OPEN
        \<and> nextRetryAt (breakerAfter testEnv calls) = Some retryAt \<and> retryAt \<le> now \<longrightarrow>
        fst (getClient now (breakerAfter testEnv calls)) = Inr ()
        \<and> state (snd (getClient now (breakerAfter testEnv calls))) = HALF_OPEN)
   \<and> (state (breakerAfter testEnv calls) = OPEN
        \<and> nextRetryAt (breakerAfter testEnv calls) = Some retryAt \<and> now < retryAt \<longrightarrow>
        getClient now (breakerAfter testEnv calls) = (Inl CircuitOpen, breakerAfter testEnv calls))
   \<and> (state (breakerAfter testEnv calls) = HALF_OPEN \<longrightarrow>
        state (recordSuccess (breakerAfter testEnv calls)) = CLOSED
        \<and> failureCount (recordSuccess (breakerAfter testEnv calls)) = 0
        \<and> backoffIndex (recordSuccess (breakerAfter testEnv calls)) = 0)
   \<and> (state (breakerAfter testEnv calls) = HALF_OPEN \<longrightarrow>
        state (recordFailure testEnv t1 t2 (breakerAfter testEnv calls)) = OPEN
        \<and> backoffIndex (recordFailure testEnv t1 t2 (breakerAfter testEnv calls))
            = min (backoffIndex (breakerAfter testEnv calls) + 1)
                  (length (BACKOFF_SCHEDULE testEnv) - 1))
   \<and> FAILURE_THRESHOLD = 3
   \<and> failureCount (breakerAfter testEnv calls) = consecutiveFailures calls
   \<and> (state (breakerAfter testEnv calls) = CLOSED)
       = (consecutiveFailures calls < FAILURE_THRESHOLD)
   \<and> (FAILURE_THRESHOLD \<le> consecutiveFailures (calls @ [RecordFailure t1 t2]) \<longrightarrow>
        state (breakerAfter testEnv (calls @ [RecordFailure t1 t2])) = OPEN)
   \<and> state (recordSuccess (breakerAfter testEnv calls)) = CLOSED
   \<and> failureCount (recordSuccess (breakerAfter testEnv calls)) = 0
   \<and> backoffIndex (recordSuccess (breakerAfter testEnv calls)) = 0
   \<and> consecutiveFailures (calls @ [RecordSuccess]) = 0"
proof -
  let ?b = "breakerAfter testEnv calls"
  have i: "breaker_inv testEnv ?b" by (rule inv_after)
  have n: "state newBreaker = CLOSED" "failureCount newBreaker = 0"
    by (simp_all add: newBreaker_def)
  have 1: "branchId \<in> set branchIds \<longrightarrow>
      constructBreakers branchIds branchId = Some newBreaker
      \<and> state newBreaker = CLOSED \<and> failureCount newBreaker = 0"
    using constructBreakers_new n by simp
  have 2: "breakerAfter testEnv [] = newBreaker"
    by (simp add: breakerAfter_def)
  have 3: "state (recordFailure testEnv t1 t2 newBreaker) = CLOSED"
    "state (recordFailure testEnv t3 t4 (recordFailure testEnv t1 t2 newBreaker)) = CLOSED"
    using below_threshold_closed [OF n] by simp_all
  have 4: "state (recordFailure testEnv t5 t6 (recordFailure testEnv t3 t4
         (recordFailure testEnv t1 t2 ?b))) = OPEN"
    by (rule three_failures_open)
  have 5: "state ?b = OPEN \<and> nextRetryAt ?b = Some retryAt \<and> retryAt \<le> now \<longrightarrow>
        fst (getClient now ?b) = Inr () \<and> state (snd (getClient now ?b)) = HALF_OPEN"
    using open_to_half_open [OF i] by simp
  have 6: "state ?b = OPEN \<and> nextRetryAt ?b = Some retryAt \<and> now < retryAt \<longrightarrow>
        getClient now ?b = (Inl CircuitOpen, ?b)"
    by (simp add: getClient_def retryDue_def)
  have 7: "state ?b = HALF_OPEN \<longrightarrow>
        state (recordSuccess ?b) = CLOSED \<and> failureCount (recordSuccess ?b) = 0
        \<and> backoffIndex (recordSuccess ?b) = 0"
    by (simp add: half_open_success)
  have 8: "state ?b = HALF_OPEN \<longrightarrow>
        state (recordFailure testEnv t1 t2 ?b) = OPEN
        \<and> backoffIndex (recordFailure testEnv t1 t2 ?b)
            = min (backoffIndex ?b + 1) (length (BACKOFF_SCHEDULE testEnv) - 1)"
    using half_open_failure [OF i] by simp
  have c: "count_inv (consecutiveFailures calls) ?b" by (rule count_inv_after)
  have 9: "FAILURE_THRESHOLD = 3" by (simp add: FAILURE_THRESHOLD_def)
  have 10: "failureCount ?b = consecutiveFailures calls"
    using c by (simp add: count_inv_def)
  have 11: "(state ?b = CLOSED) = (consecutiveFailures calls < FAILURE_THRESHOLD)"
    using c by (simp add: count_inv_def)
  have 12: "FAILURE_THRESHOLD \<le> consecutiveFailures (calls @ [RecordFailure t1 t2]) \<longrightarrow>
        state (breakerAfter testEnv (calls @ [RecordFailure t1 t2])) = OPEN"
    using failure_opens [OF c] by (simp add: breakerAfter_snoc consecutiveFailures_def)
  have 13: "state (recordSuccess ?b) = CLOSED" "failureCount (recordSuccess ?b) = 0"
    "backoffIndex (recordSuccess ?b) = 0"
    by (simp_all add: recordSuccess_def)
  have 14: "consecutiveFailures (calls @ [RecordSuccess]) = 0"
    by (simp add: consecutiveFailures_def)
  from 1 2 3 4 5 6 7 8 9 10 11 12 13 14 show ?thesis by (intro conjI)
qed

lemma tripped_breaker:
  "breakerAfter False [RecordFailure 1000 1001, RecordFailure 2000 2001, RecordFailure 3000 3001]
     = \<lparr>state = OPEN, failureCount = 3, lastFailureAt = Some 3000, nextRetryAt = Some 8001,
        backoffIndex = 1, halfOpenLocked = False\<rparr>"
  by (simp add: breakerAfter_def recordFailure_def Let_def FAILURE_THRESHOLD_def newBreaker_def
      BACKOFF_SCHEDULE_def backoffAt_def)

lemma probing_breaker:
  "breakerAfter False [RecordFailure 1000 1001, RecordFailure 2000 2001, RecordFailure 3000 3001,
       GetClient 8001]
     = \<lparr>state = HALF_OPEN, failureCount = 3, lastFailureAt = Some 3000, nextRetryAt = Some 8001,
        backoffIndex = 1, halfOpenLocked = True\<rparr>"
  by (simp add: breakerAfter_def recordFailure_def Let_def FAILURE_THRESHOLD_def newBreaker_def
      BACKOFF_SCHEDULE_def backoffAt_def getClient_def retryDue_def)

theorem breaker_state_machine_witness:
  "''main'' \<in> set [''main''] \<and> constructBreakers [''main''] ''main'' = Some newBreaker
   \<and> state (breakerAfter False
        [RecordFailure 1000 1001, RecordFailure 2000 2001, RecordFailure 3000 3001]) = OPEN
   \<and> nextRetryAt (breakerAfter False
        [RecordFailure 1000 1001, RecordFailure 2000 2001, RecordFailure 3000 3001]) = Some 8001
   \<and> state (snd (getClient 8001 (breakerAfter False
        [RecordFailure 1000 1001, RecordFailure 2000 2001, RecordFailure 3000 3001]))) = HALF_OPEN
   \<and> getClient 8000 (breakerAfter False
        [RecordFailure 1000 1001, RecordFailure 2000 2001, RecordFailure 3000 3001])
       = (Inl CircuitOpen, breakerAfter False
        [RecordFailure 1000 1001, RecordFailure 2000 2001, RecordFailure 3000 3001])
   \<and> state (breakerAfter False
        [RecordFailure 1000 1001, RecordFailure 2000 2001, RecordFailure 3000 3001,
         GetClient 8001]) = HALF_OPEN
   \<and> state (recordSuccess (breakerAfter False
        [RecordFailure 1000 1001, RecordFailure 2000 2001, RecordFailure 3000 3001,
         GetClient 8001])) = CLOSED
   \<and> state (recordFailure False 9000 9001 (breakerAfter False
        [RecordFailure 1000 1001, RecordFailure 2000 2001, RecordFailure 3000 3001,
         GetClient 8001])) = OPEN
   \<and> backoffIndex (recordFailure False 9000 9001 (breakerAfter False
        [RecordFailure 1000 1001, RecordFailure 2000 2001, RecordFailure 3000 3001,
         GetClient 8001])) = 2
   \<and> consecutiveFailures
        [RecordFailure 1000 1001, RecordFailure 2000 2001, RecordSuccess, RecordFailure 3000 3001]
       = 1
   \<and> state (breakerAfter False
        [RecordFailure 1000 1001, RecordFailure 2000 2001, RecordSuccess, RecordFailure 3000 3001])
       = CLOSED
   \<and> failureCount (breakerAfter False
        [RecordFailure 1000 1001, RecordFailure 2000 2001, RecordSuccess, RecordFailure 3000 3001])
       = 1
   \<and> state (breakerAfter False
        ([RecordFailure 1000 1001, RecordFailure 2000 2001] @ [RecordFailure 9000 9001])) = OPEN"
  using breaker_state_machine [of "''main''" "[''main'']" False 9000 9001 0 0 0 0
      "[RecordFailure 1000 1001, RecordFailure 2000 2001, RecordFailure 3000 3001]" 8001 8001]
    breaker_state_machine [of "''main''" "[''main'']" False 9000 9001 0 0 0 0
      "[RecordFailure 1000 1001, RecordFailure 2000 2001, RecordFailure 3000 3001]" 8001 8000]
    breaker_state_machine [of "''main''" "[''main'']" False 9000 9001 0 0 0 0
      "[RecordFailure 1000 1001, RecordFailure 2000 2001, RecordFailure 3000 3001, GetClient 8001]"
      8001 8001]
    breaker_state_machine [of "''main''" "[''main'']" False 9000 9001 0 0 0 0
      "[RecordFailure 1000 1001, RecordFailure 2000 2001, RecordSuccess, RecordFailure 3000 3001]"
      8001 8001]
    breaker_state_machine [of "''main''" "[''main'']" False 9000 9001 0 0 0 0
      "[RecordFailure 1000 1001, RecordFailure 2000 2001]" 8001 8001]
  by (simp add: tripped_breaker probing_breaker BACKOFF_SCHEDULE_def consecutiveFailures_def)

subsection \<open>Response parser\<close>

lemma distinct_foldl_update:
  assumes "distinct (map fst acc)"
    and "\<And>a x. distinct (map fst a) \<Longrightarrow> distinct (map fst (f a x))"
  shows "distinct (map fst (foldl f acc xs))"
  using assms by (induction xs arbitrary: acc) simp_all

lemma parseFields_distinct: "distinct (map fst (parseFields raw))"
  unfolding parseFields_def Let_def
  by (auto split: option.splits prod.splits intro!: distinct_update distinct_foldl_update)

lemma ext_fold_lookup:
  assumes "distinct (map fst all)"
  shows "map_of (foldl (\<lambda>ext entry. case entry of (tag, v) \<Rightarrow>
                   if tag = ''AY'' \<or> tag = ''AZ'' then ext
                   else if tag \<notin> set known then AList.update tag v ext
                   else ext) acc all) t
    = (if keepTag known t \<and> map_of all t \<noteq> None then map_of all t else map_of acc t)"
  using assms
proof (induction all arbitrary: acc)
  case Nil
  then show ?case by simp
next
  case (Cons e all)
  obtain k v where e: "e = (k, v)" by (cases e)
  from Cons.prems have d: "distinct (map fst all)" and n: "map_of all k = None"
    by (auto simp add: e map_of_eq_None_iff)
  show ?case
    using n by (auto simp add: e Cons.IH [OF d] update_conv keepTag_def)
qed

lemma parseExtensions_spec: "extensions_spec known (parseFields raw) (parseExtensions raw known)"
proof -
  define ext where "ext = foldl (\<lambda>ext entry. case entry of (tag, v) \<Rightarrow>
                   if tag = ''AY'' \<or> tag = ''AZ'' then ext
                   else if tag \<notin> set known then AList.update tag v ext
                   else ext) [] (parseFields raw)"
  have l: "map_of ext t = (if t \<in> set known \<or> t = ''AY'' \<or> t = ''AZ'' then None
                           else map_of (parseFields raw) t)" for t
    unfolding ext_def by (simp add: ext_fold_lookup [OF parseFields_distinct] keepTag_def)
  have p: "parseExtensions raw known = (if ext \<noteq> [] then Some ext else None)"
    by (simp add: parseExtensions_def ext_def Let_def)
  show ?thesis
  proof (cases "ext = []")
    case True
    with l have "\<And>t. (if t \<in> set known \<or> t = ''AY'' \<or> t = ''AZ'' then None
                           else map_of (parseFields raw) t) = None"
      by (metis map_of.simps(1))
    with True show ?thesis
      by (simp add: p extensions_spec_def ext_lookup_def)
  next
    case False
    with l show ?thesis
      by (simp add: p extensions_spec_def ext_lookup_def)
  qed
qed

lemma parseInt_zero: "parseInt ''0'' = Num 0"
  by (simp add: parseInt_def digitsValue_def isWhiteSpace_def isDigit_def)

lemma startsWith_code: "startsWith raw [a, b] = (substring raw 0 2 = [a, b])"
  by (simp add: startsWith_def substring_def numeral_2_eq_2)

lemmas parser_field_defs = orElse_def orEmpty_def isChar_def charAt_def substring_def trim_def
  countField_def parseInt_zero statusFlags_def startsWith_code Let_def


lemma parsePatronStatusResponse_code:
  "(parsePatronStatusResponse raw = Inl UnexpectedResponseCode) = (substring raw 0 2 \<noteq> ''24'')"
  "(\<exists>r. parsePatronStatusResponse raw = Inr r) = (substring raw 0 2 = ''24'')"
  unfolding parsePatronStatusResponse_def by (auto simp add: startsWith_code Let_def)

lemma parsePatronStatusResponse_extensions:
  "parsePatronStatusResponse raw = Inr r \<Longrightarrow> extensions_spec TAGS_PATRON_STATUS (parseFields raw) (PatronStatusResponse.extensions r)"
  unfolding parsePatronStatusResponse_def using parseExtensions_spec [of TAGS_PATRON_STATUS raw]
  by (auto simp add: Let_def startsWith_code split: if_splits)


lemma parseCheckoutResponse_code:
  "(parseCheckoutResponse raw = Inl UnexpectedResponseCode) = (substring raw 0 2 \<noteq> ''12'' \<and> substring raw 0 2 \<noteq> ''30'')"
  "(\<exists>r. parseCheckoutResponse raw = Inr r) = (substring raw 0 2 = ''12'' \<or> substring raw 0 2 = ''30'')"
  unfolding parseCheckoutResponse_def by (auto simp add: startsWith_code Let_def)

lemma parseCheckoutResponse_extensions:
  "parseCheckoutResponse raw = Inr r \<Longrightarrow> extensions_spec TAGS_CHECKOUT (parseFields raw) (CheckoutResponse.extensions r)"
  unfolding parseCheckoutResponse_def using parseExtensions_spec [of TAGS_CHECKOUT raw]
  by (auto simp add: Let_def startsWith_code split: if_splits)


lemma parseCheckinResponse_code:
  "(parseCheckinResponse raw = Inl UnexpectedResponseCode) = (substring raw 0 2 \<noteq> ''10'')"
  "(\<exists>r. parseCheckinResponse raw = Inr r) = (substring raw 0 2 = ''10'')"
  unfolding parseCheckinResponse_def by (auto simp add: startsWith_code Let_def)

lemma parseCheckinResponse_extensions:
  "parseCheckinResponse raw = Inr r \<Longrightarrow> extensions_spec TAGS_CHECKIN (parseFields raw) (CheckinResponse.extensions r)"
  unfolding parseCheckinResponse_def using parseExtensions_spec [of TAGS_CHECKIN raw]
  by (auto simp add: Let_def startsWith_code split: if_splits)


lemma parseItemInformationResponse_code:
  "(parseItemInformationResponse raw = Inl UnexpectedResponseCode) = (substring raw 0 2 \<noteq> ''18'')"
  "(\<exists>r. parseItemInformationResponse raw = Inr r) = (substring raw 0 2 = ''18'')"
  unfolding parseItemInformationResponse_def by (auto simp add: startsWith_code Let_def)

lemma parseItemInformationResponse_extensions:
  "parseItemInformationResponse raw = Inr r \<Longrightarrow> extensions_spec TAGS_ITEM_INFO (parseFields raw) (ItemInformationResponse.extensions r)"
  unfolding parseItemInformationResponse_def using parseExtensions_spec [of TAGS_ITEM_INFO raw]
  by (auto simp add: Let_def startsWith_code split: if_splits)


lemma parseFeePaidResponse_code:
  "(parseFeePaidResponse raw = Inl UnexpectedResponseCode) = (substring raw 0 2 \<noteq> ''38'')"
  "(\<exists>r. parseFeePaidResponse raw = Inr r) = (substring raw 0 2 = ''38'')"
  unfolding parseFeePaidResponse_def by (auto simp add: startsWith_code Let_def)

lemma parseFeePaidResponse_extensions:
  "parseFeePaidResponse raw = Inr r \<Longrightarrow> extensions_spec TAGS_FEE_PAID (parseFields raw) (FeePaidResponse.extensions r)"
  unfolding parseFeePaidResponse_def using parseExtensions_spec [of TAGS_FEE_PAID raw]
  by (auto simp add: Let_def startsWith_code split: if_splits)


lemma parsePatronInformationResponse_code:
  "(parsePatronInformationResponse raw = Inl UnexpectedResponseCode) = (substring raw 0 2 \<noteq> ''64'')"
  "(\<exists>r. parsePatronInformationResponse raw = Inr r) = (substring raw 0 2 = ''64'')"
  unfolding parsePatronInformationResponse_def by (auto simp add: startsWith_code Let_def)

lemma parsePatronInformationResponse_extensions:
  "parsePatronInformationResponse raw = Inr r \<Longrightarrow> extensions_spec TAGS_PATRON_INFO (parseFields raw) (PatronInformationResponse.extensions r)"
  unfolding parsePatronInformationResponse_def using parseExtensions_spec [of TAGS_PATRON_INFO raw]
  by (auto simp add: Let_def startsWith_code split: if_splits)


lemma parseHoldResponse_code:
  "(parseHoldResponse raw = Inl UnexpectedResponseCode) = (substring raw 0 2 \<noteq> ''16'')"
  "(\<exists>r. parseHoldResponse raw = Inr r) = (substring raw 0 2 = ''16'')"
  unfolding parseHoldResponse_def by (auto simp add: startsWith_code Let_def)

lemma parseHoldResponse_extensions:
  "parseHoldResponse raw = Inr r \<Longrightarrow> extensions_spec TAGS_HOLD (parseFields raw) (HoldResponse.extensions r)"
  unfolding parseHoldResponse_def using parseExtensions_spec [of TAGS_HOLD raw]
  by (auto simp add: Let_def startsWith_code split: if_splits)


lemma parseRenewAllResponse_code:
  "(parseRenewAllResponse raw = Inl UnexpectedResponseCode) = (substring raw 0 2 \<noteq> ''66'')"
  "(\<exists>r. parseRenewAllResponse raw = Inr r) = (substring raw 0 2 = ''66'')"
  unfolding parseRenewAllResponse_def by (auto simp add: startsWith_code Let_def)

lemma parseRenewAllResponse_extensions:
  "parseRenewAllResponse raw = Inr r \<Longrightarrow> extensions_spec TAGS_RENEW_ALL (parseFields raw) (RenewAllResponse.extensions r)"
  unfolding parseRenewAllResponse_def using parseExtensions_spec [of TAGS_RENEW_ALL raw]
  by (auto simp add: Let_def startsWith_code split: if_splits)


lemma parseEndSessionResponse_code:
  "(parseEndSessionResponse raw = Inl UnexpectedResponseCode) = (substring raw 0 2 \<noteq> ''36'')"
  "(\<exists>r. parseEndSessionResponse raw = Inr r) = (substring raw 0 2 = ''36'')"
  unfolding parseEndSessionResponse_def by (auto simp add: startsWith_code Let_def)

lemma parseEndSessionResponse_extensions:
  "parseEndSessionResponse raw = Inr r \<Longrightarrow> extensions_spec TAGS_END_SESSION (parseFields raw) (EndSessionResponse.extensions r)"
  unfolding parseEndSessionResponse_def using parseExtensions_spec [of TAGS_END_SESSION raw]
  by (auto simp add: Let_def startsWith_code split: if_splits)


lemma parseACSStatusResponse_code:
  "(parseACSStatusResponse raw = Inl UnexpectedResponseCode) = (substring raw 0 2 \<noteq> ''98'')"
  "(\<exists>r. parseACSStatusResponse raw = Inr r) = (substring raw 0 2 = ''98'')"
  unfolding parseACSStatusResponse_def by (auto simp add: startsWith_code Let_def)

lemma parseACSStatusResponse_extensions:
  "parseACSStatusResponse raw = Inr r \<Longrightarrow> extensions_spec TAGS_ACS_STATUS (parseFields raw) (ACSStatusResponse.extensions r)"
  unfolding parseACSStatusResponse_def using parseExtensions_spec [of TAGS_ACS_STATUS raw]
  by (auto simp add: Let_def startsWith_code split: if_splits)


lemma parseItemStatusUpdateResponse_code:
  "(parseItemStatusUpdateResponse raw = Inl UnexpectedResponseCode) = (substring raw 0 2 \<noteq> ''20'')"
  "(\<exists>r. parseItemStatusUpdateResponse raw = Inr r) = (substring raw 0 2 = ''20'')"
  unfolding parseItemStatusUpdateResponse_def by (auto simp add: startsWith_code Let_def)

lemma parseItemStatusUpdateResponse_extensions:
  "parseItemStatusUpdateResponse raw = Inr r \<Longrightarrow> extensions_spec TAGS_ITEM_STATUS_UPDATE (parseFields raw) (ItemStatusUpdateResponse.extensions r)"
  unfolding parseItemStatusUpdateResponse_def using parseExtensions_spec [of TAGS_ITEM_STATUS_UPDATE raw]
  by (auto simp add: Let_def startsWith_code split: if_splits)


lemma parsePatronEnableResponse_code:
  "(parsePatronEnableResponse raw = Inl UnexpectedResponseCode) = (substring raw 0 2 \<noteq> ''26'')"
  "(\<exists>r. parsePatronEnableResponse raw = Inr r) = (substring raw 0 2 = ''26'')"
  unfolding parsePatronEnableResponse_def by (auto simp add: startsWith_code Let_def)

lemma parsePatronEnableResponse_extensions:
  "parsePatronEnableResponse raw = Inr r \<Longrightarrow> extensions_spec TAGS_PATRON_STATUS (parseFields raw) (PatronStatusResponse.extensions r)"
  unfolding parsePatronEnableResponse_def using parseExtensions_spec [of TAGS_PATRON_STATUS raw]
  by (auto simp add: Let_def startsWith_code split: if_splits)

lemma parseFields_bare: "parseFields ''24'' = []"
  by (simp add: parseFields_def tagMatches.simps tagAhead_def ayAhead_def substring_def fieldThreshold_def fixedFieldLengths_def isUpperAscii_def)

lemma parseFieldsMulti_bare: "parseFieldsMulti ''24'' = []"
  by (simp add: parseFieldsMulti_def tagMatches.simps tagAhead_def substring_def fieldThreshold_def fixedFieldLengths_def isUpperAscii_def)

lemma frame1: "parseFields ''24|XAfoo|AAP1|AY1AZ'' = [(''XA'', ''foo''), (''AA'', ''P1''), (''AY'', ''1'')]"
  by (simp add: parseFields_def tagMatches.simps tagAhead_def ayAhead_def substring_def fieldThreshold_def fixedFieldLengths_def isUpperAscii_def isTag_def isDigit_def)


lemma parseExtensions_frame1:
  "parseExtensions ''24|XAfoo|AAP1|AY1AZ'' TAGS_PATRON_STATUS = Some [(''XA'', ''foo'')]"
  by (simp add: parseExtensions_def frame1 TAGS_PATRON_STATUS_def)

text \<open>
  Claim C9. Each of the twelve response parsers fails with \<open>UnexpectedResponseCode\<close> exactly on
  the inputs whose first two characters are not a command code the parser expects, and
  returns a record on every other input. \<open>parseCheckoutResponse\<close> expects \<open>12\<close> or \<open>30\<close> (checkout
  or renew); every other parser expects one code.
\<close>

theorem parser_rejects_other_codes:
  "(parsePatronStatusResponse raw = Inl UnexpectedResponseCode) = (substring raw 0 2 \<noteq> ''24'')
   \<and> (\<exists>r. parsePatronStatusResponse raw = Inr r) = (substring raw 0 2 = ''24'')
   \<and> (parseCheckoutResponse raw = Inl UnexpectedResponseCode) = (substring raw 0 2 \<noteq> ''12'' \<and> substring raw 0 2 \<noteq> ''30'')
   \<and> (\<exists>r. parseCheckoutResponse raw = Inr r) = (substring raw 0 2 = ''12'' \<or> substring raw 0 2 = ''30'')
   \<and> (parseCheckinResponse raw = Inl UnexpectedResponseCode) = (substring raw 0 2 \<noteq> ''10'')
   \<and> (\<exists>r. parseCheckinResponse raw = Inr r) = (substring raw 0 2 = ''10'')
   \<and> (parseItemInformationResponse raw = Inl UnexpectedResponseCode) = (substring raw 0 2 \<noteq> ''18'')
   \<and> (\<exists>r. parseItemInformationResponse raw = Inr r) = (substring raw 0 2 = ''18'')
   \<and> (parseFeePaidResponse raw = Inl UnexpectedResponseCode) = (substring raw 0 2 \<noteq> ''38'')
   \<and> (\<exists>r. parseFeePaidResponse raw = Inr r) = (substring raw 0 2 = ''38'')
   \<and> (parsePatronInformationResponse raw = Inl UnexpectedResponseCode) = (substring raw 0 2 \<noteq> ''64'')
   \<and> (\<exists>r. parsePatronInformationResponse raw = Inr r) = (substring raw 0 2 = ''64'')
   \<and> (parseHoldResponse raw = Inl UnexpectedResponseCode) = (substring raw 0 2 \<noteq> ''16'')
   \<and> (\<exists>r. parseHoldResponse raw = Inr r) = (substring raw 0 2 = ''16'')
   \<and> (parseRenewAllResponse raw = Inl UnexpectedResponseCode) = (substring raw 0 2 \<noteq> ''66'')
   \<and> (\<exists>r. parseRenewAllResponse raw = Inr r) = (substring raw 0 2 = ''66'')
   \<and> (parseEndSessionResponse raw = Inl UnexpectedResponseCode) = (substring raw 0 2 \<noteq> ''36'')
   \<and> (\<exists>r. parseEndSessionResponse raw = Inr r) = (substring raw 0 2 = ''36'')
   \<and> (parseACSStatusResponse raw = Inl UnexpectedResponseCode) = (substring raw 0 2 \<noteq> ''98'')
   \<and> (\<exists>r. parseACSStatusResponse raw = Inr r) = (substring raw 0 2 = ''98'')
   \<and> (parseItemStatusUpdateResponse raw = Inl UnexpectedResponseCode) = (substring raw 0 2 \<noteq> ''20'')
   \<and> (\<exists>r. parseItemStatusUpdateResponse raw = Inr r) = (substring raw 0 2 = ''20'')
   \<and> (parsePatronEnableResponse raw = Inl UnexpectedResponseCode) = (substring raw 0 2 \<noteq> ''26'')
   \<and> (\<exists>r. parsePatronEnableResponse raw = Inr r) = (substring raw 0 2 = ''26'')"
  by (simp only: parsePatronStatusResponse_code parseCheckoutResponse_code parseCheckinResponse_code parseItemInformationResponse_code parseFeePaidResponse_code parsePatronInformationResponse_code parseHoldResponse_code parseRenewAllResponse_code parseEndSessionResponse_code parseACSStatusResponse_code parseItemStatusUpdateResponse_code parsePatronEnableResponse_code simp_thms)

theorem parser_rejects_other_codes_witness:
  "parseFeePaidResponse ''30Y'' = Inl UnexpectedResponseCode
   \<and> parseCheckoutResponse ''38Y'' = Inl UnexpectedResponseCode
   \<and> parsePatronStatusResponse [] = Inl UnexpectedResponseCode
   \<and> parseCheckoutResponse ''30'' \<noteq> Inl UnexpectedResponseCode"
  using parser_rejects_other_codes [of "''30Y''"] parser_rejects_other_codes [of "''38Y''"]
    parser_rejects_other_codes [of "[]"] parser_rejects_other_codes [of "''30''"]
  by (simp add: substring_def)

text \<open>
  What \<open>parseExtensions\<close> does with the fields that \<open>parseFields\<close> found, for each of the twelve
  response parsers and every frame it accepts: \<open>extensions\<close> holds no tag of the variant's known
  set and neither \<open>AY\<close> nor \<open>AZ\<close>; every other tag that \<open>parseFields\<close> found is in \<open>extensions\<close>
  with its value; and \<open>extensions\<close> is \<open>undefined\<close>, never an empty mapping, when no such tag
  was found. Which fields of a frame \<open>parseFields\<close> finds is another matter, see below.
\<close>

lemma extensions_hold_unknown_tags:
  "(\<forall>r. parsePatronStatusResponse raw = Inr r \<longrightarrow>
        extensions_spec TAGS_PATRON_STATUS (parseFields raw) (PatronStatusResponse.extensions r))
   \<and> (\<forall>r. parseCheckoutResponse raw = Inr r \<longrightarrow>
        extensions_spec TAGS_CHECKOUT (parseFields raw) (CheckoutResponse.extensions r))
   \<and> (\<forall>r. parseCheckinResponse raw = Inr r \<longrightarrow>
        extensions_spec TAGS_CHECKIN (parseFields raw) (CheckinResponse.extensions r))
   \<and> (\<forall>r. parseItemInformationResponse raw = Inr r \<longrightarrow>
        extensions_spec TAGS_ITEM_INFO (parseFields raw) (ItemInformationResponse.extensions r))
   \<and> (\<forall>r. parseFeePaidResponse raw = Inr r \<longrightarrow>
        extensions_spec TAGS_FEE_PAID (parseFields raw) (FeePaidResponse.extensions r))
   \<and> (\<forall>r. parsePatronInformationResponse raw = Inr r \<longrightarrow>
        extensions_spec TAGS_PATRON_INFO (parseFields raw) (PatronInformationResponse.extensions r))
   \<and> (\<forall>r. parseHoldResponse raw = Inr r \<longrightarrow>
        extensions_spec TAGS_HOLD (parseFields raw) (HoldResponse.extensions r))
   \<and> (\<forall>r. parseRenewAllResponse raw = Inr r \<longrightarrow>
        extensions_spec TAGS_RENEW_ALL (parseFields raw) (RenewAllResponse.extensions r))
   \<and> (\<forall>r. parseEndSessionResponse raw = Inr r \<longrightarrow>
        extensions_spec TAGS_END_SESSION (parseFields raw) (EndSessionResponse.extensions r))
   \<and> (\<forall>r. parseACSStatusResponse raw = Inr r \<longrightarrow>
        extensions_spec TAGS_ACS_STATUS (parseFields raw) (ACSStatusResponse.extensions r))
   \<and> (\<forall>r. parseItemStatusUpdateResponse raw = Inr r \<longrightarrow>
        extensions_spec TAGS_ITEM_STATUS_UPDATE (parseFields raw) (ItemStatusUpdateResponse.extensions r))
   \<and> (\<forall>r. parsePatronEnableResponse raw = Inr r \<longrightarrow>
        extensions_spec TAGS_PATRON_STATUS (parseFields raw) (PatronStatusResponse.extensions r))"
  by (intro conjI allI impI; erule parsePatronStatusResponse_extensions parseCheckoutResponse_extensions parseCheckinResponse_extensions parseItemInformationResponse_extensions parseFeePaidResponse_extensions parsePatronInformationResponse_extensions parseHoldResponse_extensions parseRenewAllResponse_extensions parseEndSessionResponse_extensions parseACSStatusResponse_extensions parseItemStatusUpdateResponse_extensions parsePatronEnableResponse_extensions)

lemma extensions_hold_unknown_tags_example:
  "map_sum id PatronStatusResponse.extensions (parsePatronStatusResponse ''24|XAfoo|AAP1|AY1AZ'')
     = Inr (Some [(''XA'', ''foo'')])
   \<and> extensions_spec TAGS_PATRON_STATUS (parseFields ''24|XAfoo|AAP1|AY1AZ'')
       (Some [(''XA'', ''foo'')])
   \<and> map_of (parseFields ''24|XAfoo|AAP1|AY1AZ'') ''AA'' = Some ''P1''
   \<and> map_of (parseFields ''24|XAfoo|AAP1|AY1AZ'') ''AY'' = Some ''1''
   \<and> map_sum id PatronStatusResponse.extensions (parsePatronStatusResponse ''24'') = Inr None"
proof -
  obtain r where r: "parsePatronStatusResponse ''24|XAfoo|AAP1|AY1AZ'' = Inr r"
    using parsePatronStatusResponse_code(2) [of "''24|XAfoo|AAP1|AY1AZ''"]
    by (auto simp add: substring_def)
  then have e: "PatronStatusResponse.extensions r = Some [(''XA'', ''foo'')]"
    using parseExtensions_frame1
    by (auto simp add: parsePatronStatusResponse_def Let_def split: if_splits)
  have "extensions_spec TAGS_PATRON_STATUS (parseFields ''24|XAfoo|AAP1|AY1AZ'')
       (PatronStatusResponse.extensions r)"
    using extensions_hold_unknown_tags [of "''24|XAfoo|AAP1|AY1AZ''"] r by blast
  moreover have "parseExtensions ''24'' TAGS_PATRON_STATUS = None"
    by (simp add: parseExtensions_def parseFields_bare)
  ultimately show ?thesis
    using r e by (simp add: frame1 parsePatronStatusResponse_def startsWith_code substring_def Let_def)
qed

lemmas parseFields_eval = parseFields_def tagMatches.simps tagAhead_def ayAhead_def substring_def
  fieldThreshold_def fixedFieldLengths_def isUpperAscii_def isTag_def isDigit_def

lemma hold_frame_fields:
  "parseFields ''161Y20260222    120000XAfoo|AOTest|AAP12345|''
     = [(''AO'', ''Test''), (''AA'', ''P12345'')]"
  by (simp add: parseFields_eval)

lemma hold_frame_matches:
  "tagMatches 0 ''161Y20260222    120000XAfoo'' = [(22, ''XA'', ''foo'')]"
  by (simp add: parseFields_eval)

text \<open>
  A field after the first \<open>|\<close> of the frame is always found: when it starts with a tag outside
  the known set and \<open>AY\<close>/\<open>AZ\<close>, the tag is in \<open>extensions\<close>.
\<close>

lemma fold_parts_keeps:
  "tag \<in> fst ` set acc \<Longrightarrow>
   tag \<in> fst ` set (foldl (\<lambda>fields' part.
                      if isTag (substring part 0 2)
                      then AList.update (substring part 0 2) (drop 2 part) fields'
                      else fields')
                    acc parts)"
  by (induction parts arbitrary: acc) (simp_all add: Let_def dom_update)

lemma fold_parts_finds:
  "part \<in> set parts \<Longrightarrow> isTag (substring part 0 2) \<Longrightarrow>
   substring part 0 2 \<in> fst ` set (foldl (\<lambda>fields' part.
                      if isTag (substring part 0 2)
                      then AList.update (substring part 0 2) (drop 2 part) fields'
                      else fields')
                    acc parts)"
proof (induction parts arbitrary: acc)
  case Nil
  then show ?case by simp
next
  case (Cons p ps)
  show ?case
  proof (cases "part = p")
    case True
    have "substring part 0 2 \<in> fst ` set (AList.update (substring part 0 2) (drop 2 part) acc)"
      by (simp add: dom_update)
    then show ?thesis
      using True Cons.prems(2) fold_parts_keeps by (simp add: Let_def)
  next
    case False
    then have "part \<in> set ps" using Cons.prems(1) by simp
    then show ?thesis using Cons.IH Cons.prems(2) by simp
  qed
qed

lemma later_field_discovered:
  assumes "part \<in> set (tl (split CHR ''|'' raw))" and "isTag (substring part 0 2)"
  shows "map_of (parseFields raw) (substring part 0 2) \<noteq> None"
proof -
  have "substring part 0 2 \<in> fst ` set (parseFields raw)"
    unfolding parseFields_def Let_def
    using fold_parts_finds [OF assms]
    by (auto split: option.splits simp add: dom_update)
  then show ?thesis by (simp add: map_of_eq_None_iff)
qed

lemma later_field_in_extensions:
  assumes "part \<in> set (tl (split CHR ''|'' raw))" and "isTag (substring part 0 2)"
    and "substring part 0 2 \<notin> set known"
    and "substring part 0 2 \<noteq> ''AY''" and "substring part 0 2 \<noteq> ''AZ''"
  shows "ext_lookup (parseExtensions raw known) (substring part 0 2)
           = map_of (parseFields raw) (substring part 0 2)
         \<and> ext_lookup (parseExtensions raw known) (substring part 0 2) \<noteq> None"
  using parseExtensions_spec [of known raw] later_field_discovered [OF assms(1,2)] assms(3-5)
  by (simp add: extensions_spec_def)

text \<open>
  The first variable field of a frame is in the segment of the fixed header, where \<open>parseFields\<close>
  keeps a tag only from the index \<open>fixedFieldLengths\<close> gives for the message code. For a hold
  response that index is 24, while \<open>parseHoldResponse\<close> reads the header up to index 22: in the
  hold frame of the repository's parser tests the institution \<open>AOTest\<close> starts at index 22 and
  is lost.
\<close>

lemma hold_fixture_loses_institution:
  "map_sum id HoldResponse.institutionId
     (parseHoldResponse (''161Y20260222    120000AOTest|AAP12345|ABITEM456|AJHeld Book|BW20261231|BSMAIN|AY0AZ1234'' @ [CHR 0x0D]))
    = Inr []"
  by (simp add: parseHoldResponse_def parseExtensions_def TAGS_HOLD_def parseFields_eval
      parser_field_defs isWhiteSpace_def)

text \<open>
  Claim C5 fails on the code. In the hold frame \<open>161Y20260222    120000XAfoo|AOTest|AAP12345|\<close>
  the header ends at index 22, where \<open>parseHoldResponse\<close> stops reading the transaction date,
  and the first variable field is \<open>XAfoo\<close>, whose tag is not in the known set of a hold
  response. The parsed record has no \<open>extensions\<close>: the field is dropped, because it starts
  before index 24. The same field in second place is kept.
\<close>
theorem hold_first_field_dropped:
  "substring ''161Y20260222    120000XAfoo|AOTest|AAP12345|'' 22 24 = ''XA''
   \<and> ''XA'' \<notin> set TAGS_HOLD
   \<and> map_sum id HoldResponse.transactionDate
        (parseHoldResponse ''161Y20260222    120000XAfoo|AOTest|AAP12345|'')
       = Inr ''20260222    120000''
   \<and> map_sum id HoldResponse.institutionId
        (parseHoldResponse ''161Y20260222    120000XAfoo|AOTest|AAP12345|'') = Inr ''Test''
   \<and> map_sum id HoldResponse.extensions
        (parseHoldResponse ''161Y20260222    120000XAfoo|AOTest|AAP12345|'') = Inr None
   \<and> map_sum id HoldResponse.extensions
        (parseHoldResponse ''161Y20260222    120000AOTest|XAfoo|AAP12345|'')
       = Inr (Some [(''XA'', ''foo'')])"
  by (simp add: parseHoldResponse_def parseExtensions_def TAGS_HOLD_def parseFields_eval
      parser_field_defs isWhiteSpace_def)























subsection \<open>Masking service\<close>

lemma add32_code:
  "add32 a b = (if a + b < 4294967296 then a + b
                else if a + b - 4294967296 < 4294967296 then a + b - 4294967296
                else (a + b) mod 4294967296)"
proof -
  have "a + b - 4294967296 < 4294967296 \<Longrightarrow> \<not> a + b < 4294967296
      \<Longrightarrow> (a + b) mod 4294967296 = a + b - 4294967296"
    by (simp add: mod_if le_mod_geq)
  then show ?thesis by (auto simp add: add32_def)
qed

lemmas sha_compress_eval = compress_def sha_K_def sha_H0_def add32_code rotr_def not32_def
  Sigma0_def Sigma1_def Ch_def Maj_def sigma0_def sigma1_def next_w_def

lemma replicate_numeral: "replicate (numeral n) x = x # replicate (pred_numeral n) x"
  by (simp add: numeral_eq_Suc)

lemma sha_blocks_two:
  assumes "length a = 64" and "length b = 64"
  shows "sha_blocks h (a @ b) = compress (compress h a) b"
proof -
  have "sha_blocks h (a @ b) = sha_blocks (compress h a) b"
    using assms by (subst sha_blocks.simps) simp
  also have "\<dots> = sha_blocks (compress (compress h a) b) []"
    using assms by (subst sha_blocks.simps) simp
  also have "\<dots> = compress (compress h a) b"
    by (subst sha_blocks.simps) simp
  finally show ?thesis .
qed

lemma test_key_pads:
  "map (\<lambda>b. b XOR 0x36) (hmac_key_block (utf8 ''test-master-key'')) = test_key_ipad"
  "map (\<lambda>b. b XOR 0x5c) (hmac_key_block (utf8 ''test-master-key'')) = test_key_opad"
  by (simp_all add: hmac_key_block_def utf8_def test_key_ipad_def test_key_opad_def
      replicate_numeral)

lemma test_key_pad_length: "length test_key_ipad = 64" "length test_key_opad = 64"
  by (simp_all add: test_key_ipad_def test_key_opad_def)

lemma compress_test_key_ipad:
  "compress sha_H0 test_key_ipad = (1706215914, 3388546030, 1850953424, 4142801421, 2653462702, 2074320754, 2765950250, 2758434937)"
  by (simp add: test_key_ipad_def sha_compress_eval)

lemma compress_test_key_opad:
  "compress sha_H0 test_key_opad = (3590177014, 2412506590, 686297488, 2588160520, 1774273011, 3144843291, 1299899461, 50889574)"
  by (simp add: test_key_opad_def sha_compress_eval)

lemma compress_inner_barcode:
  "compress (1706215914, 3388546030, 1850953424, 4142801421, 2653462702, 2074320754, 2765950250, 2758434937)
     [80, 49, 50, 51, 52, 53, 128, 0, 0, 0, 0, 0, 0, 0, 0, 0, 0, 0, 0, 0, 0, 0, 0, 0, 0, 0,
       0, 0, 0, 0, 0, 0, 0, 0, 0, 0, 0, 0, 0, 0, 0, 0, 0, 0, 0, 0, 0, 0, 0, 0, 0, 0, 0, 0, 0,
       0, 0, 0, 0, 0, 0, 0, 2, 48]
   = (3617133747, 335051221, 2758583884, 2372107831, 3533445784, 63585067, 431075621, 331640860)"
  by (simp add: sha_compress_eval)

lemma compress_outer_barcode:
  "compress (3590177014, 2412506590, 686297488, 2588160520, 1774273011, 3144843291, 1299899461, 50889574)
     [215, 153, 20, 179, 19, 248, 121, 213, 164, 108, 166, 76, 141, 99, 126, 55, 210, 156,
       26, 152, 3, 202, 59, 43, 25, 177, 177, 37, 19, 196, 112, 28, 128, 0, 0, 0, 0, 0, 0, 0,
       0, 0, 0, 0, 0, 0, 0, 0, 0, 0, 0, 0, 0, 0, 0, 0, 0, 0, 0, 0, 0, 0, 3, 0]
   = (422875033, 1591708924, 2510044400, 500144743, 3079292251, 4115544944, 2531561597, 3532833604)"
  by (simp add: sha_compress_eval)

lemma hmacHex_barcode:
  "hmacHex ''test-master-key'' ''P12345'' = ''19348f995edf8cfc959c3cf01dcf9a67b78a455bf54e3b7096e4907dd292c344''"
proof -
  have i: "sha_pad (test_key_ipad @ utf8 ''P12345'') = test_key_ipad @
     [80, 49, 50, 51, 52, 53, 128, 0, 0, 0, 0, 0, 0, 0, 0, 0, 0, 0, 0, 0, 0, 0, 0, 0, 0, 0,
       0, 0, 0, 0, 0, 0, 0, 0, 0, 0, 0, 0, 0, 0, 0, 0, 0, 0, 0, 0, 0, 0, 0, 0, 0, 0, 0, 0, 0,
       0, 0, 0, 0, 0, 0, 0, 2, 48]"
    by (simp add: sha_pad_def utf8_def be_bytes8_def test_key_ipad_def replicate_numeral)
  have o: "sha_pad (test_key_opad @ state_bytes (3617133747, 335051221, 2758583884, 2372107831, 3533445784, 63585067, 431075621, 331640860)) = test_key_opad @
     [215, 153, 20, 179, 19, 248, 121, 213, 164, 108, 166, 76, 141, 99, 126, 55, 210, 156,
       26, 152, 3, 202, 59, 43, 25, 177, 177, 37, 19, 196, 112, 28, 128, 0, 0, 0, 0, 0, 0, 0,
       0, 0, 0, 0, 0, 0, 0, 0, 0, 0, 0, 0, 0, 0, 0, 0, 0, 0, 0, 0, 0, 0, 3, 0]"
    by (simp add: sha_pad_def be_bytes8_def test_key_opad_def replicate_numeral)
  have a: "sha256 (test_key_ipad @ utf8 ''P12345'') = (3617133747, 335051221, 2758583884, 2372107831, 3533445784, 63585067, 431075621, 331640860)"
    unfolding sha256_def i
    by (simp add: sha_blocks_two test_key_pad_length compress_test_key_ipad
        compress_inner_barcode)
  have b: "sha256 (test_key_opad @ state_bytes (3617133747, 335051221, 2758583884, 2372107831, 3533445784, 63585067, 431075621, 331640860)) = (422875033, 1591708924, 2510044400, 500144743, 3079292251, 4115544944, 2531561597, 3532833604)"
    unfolding sha256_def o
    by (simp add: sha_blocks_two test_key_pad_length compress_test_key_opad
        compress_outer_barcode)
  show ?thesis
    unfolding hmacHex_def hmac_sha256_def Let_def test_key_pads a b
    by (simp add: hex8_def padStart_def toStringRadix.simps digitChar_def)
qed

lemma compress_inner_masked:
  "compress (1706215914, 3388546030, 1850953424, 4142801421, 2653462702, 2074320754, 2765950250, 2758434937)
     [77, 65, 83, 75, 69, 68, 95, 49, 57, 51, 52, 56, 102, 57, 57, 53, 101, 100, 102, 56, 99,
       102, 99, 128, 0, 0, 0, 0, 0, 0, 0, 0, 0, 0, 0, 0, 0, 0, 0, 0, 0, 0, 0, 0, 0, 0, 0, 0,
       0, 0, 0, 0, 0, 0, 0, 0, 0, 0, 0, 0, 0, 0, 2, 184]
   = (4236803723, 861210528, 69155738, 3739654887, 3085887656, 4022702027, 1279085245, 716246484)"
  by (simp add: sha_compress_eval)

lemma compress_outer_masked:
  "compress (3590177014, 2412506590, 686297488, 2588160520, 1774273011, 3144843291, 1299899461, 50889574)
     [252, 136, 126, 139, 51, 85, 7, 160, 4, 31, 59, 154, 222, 230, 154, 231, 183, 238, 232,
       168, 239, 197, 143, 203, 76, 61, 74, 189, 42, 177, 13, 212, 128, 0, 0, 0, 0, 0, 0, 0,
       0, 0, 0, 0, 0, 0, 0, 0, 0, 0, 0, 0, 0, 0, 0, 0, 0, 0, 0, 0, 0, 0, 3, 0]
   = (106610894, 307094874, 3768664759, 3412954947, 1096284600, 1005625132, 1718638977, 4187293511)"
  by (simp add: sha_compress_eval)

lemma hmacHex_masked:
  "hmacHex ''test-master-key'' ''MASKED_19348f995edf8cfc'' = ''065ac0ce124de55ae0a142b7cb6d8f434157f9b83bf09f2c66705981f9950747''"
proof -
  have i: "sha_pad (test_key_ipad @ utf8 ''MASKED_19348f995edf8cfc'') = test_key_ipad @
     [77, 65, 83, 75, 69, 68, 95, 49, 57, 51, 52, 56, 102, 57, 57, 53, 101, 100, 102, 56, 99,
       102, 99, 128, 0, 0, 0, 0, 0, 0, 0, 0, 0, 0, 0, 0, 0, 0, 0, 0, 0, 0, 0, 0, 0, 0, 0, 0,
       0, 0, 0, 0, 0, 0, 0, 0, 0, 0, 0, 0, 0, 0, 2, 184]"
    by (simp add: sha_pad_def utf8_def be_bytes8_def test_key_ipad_def replicate_numeral)
  have o: "sha_pad (test_key_opad @ state_bytes (4236803723, 861210528, 69155738, 3739654887, 3085887656, 4022702027, 1279085245, 716246484)) = test_key_opad @
     [252, 136, 126, 139, 51, 85, 7, 160, 4, 31, 59, 154, 222, 230, 154, 231, 183, 238, 232,
       168, 239, 197, 143, 203, 76, 61, 74, 189, 42, 177, 13, 212, 128, 0, 0, 0, 0, 0, 0, 0,
       0, 0, 0, 0, 0, 0, 0, 0, 0, 0, 0, 0, 0, 0, 0, 0, 0, 0, 0, 0, 0, 0, 3, 0]"
    by (simp add: sha_pad_def be_bytes8_def test_key_opad_def replicate_numeral)
  have a: "sha256 (test_key_ipad @ utf8 ''MASKED_19348f995edf8cfc'') = (4236803723, 861210528, 69155738, 3739654887, 3085887656, 4022702027, 1279085245, 716246484)"
    unfolding sha256_def i
    by (simp add: sha_blocks_two test_key_pad_length compress_test_key_ipad
        compress_inner_masked)
  have b: "sha256 (test_key_opad @ state_bytes (4236803723, 861210528, 69155738, 3739654887, 3085887656, 4022702027, 1279085245, 716246484)) = (106610894, 307094874, 3768664759, 3412954947, 1096284600, 1005625132, 1718638977, 4187293511)"
    unfolding sha256_def o
    by (simp add: sha_blocks_two test_key_pad_length compress_test_key_opad
        compress_outer_masked)
  show ?thesis
    unfolding hmacHex_def hmac_sha256_def Let_def test_key_pads a b
    by (simp add: hex8_def padStart_def toStringRadix.simps digitChar_def)
qed

lemma compress_inner_other:
  "compress (1706215914, 3388546030, 1850953424, 4142801421, 2653462702, 2074320754, 2765950250, 2758434937)
     [80, 54, 55, 56, 57, 48, 128, 0, 0, 0, 0, 0, 0, 0, 0, 0, 0, 0, 0, 0, 0, 0, 0, 0, 0, 0,
       0, 0, 0, 0, 0, 0, 0, 0, 0, 0, 0, 0, 0, 0, 0, 0, 0, 0, 0, 0, 0, 0, 0, 0, 0, 0, 0, 0, 0,
       0, 0, 0, 0, 0, 0, 0, 2, 48]
   = (4250561976, 2824048521, 1359738859, 1459784618, 2974366701, 309796404, 482089731, 3092672514)"
  by (simp add: sha_compress_eval)

lemma compress_outer_other:
  "compress (3590177014, 2412506590, 686297488, 2588160520, 1774273011, 3144843291, 1299899461, 50889574)
     [253, 90, 109, 184, 168, 83, 143, 137, 81, 11, 247, 235, 87, 2, 139, 170, 177, 73, 59,
       237, 18, 119, 30, 52, 28, 188, 27, 3, 184, 86, 112, 2, 128, 0, 0, 0, 0, 0, 0, 0, 0, 0,
       0, 0, 0, 0, 0, 0, 0, 0, 0, 0, 0, 0, 0, 0, 0, 0, 0, 0, 0, 0, 3, 0]
   = (1992863348, 3826661775, 3854904538, 1401630621, 4105248757, 3133237732, 3290273008, 4065059701)"
  by (simp add: sha_compress_eval)

lemma hmacHex_other:
  "hmacHex ''test-master-key'' ''P67890'' = ''76c8ae74e416398fe5c52cda538b2f9df4b11ff5bac169e4c41d94f0f24be375''"
proof -
  have i: "sha_pad (test_key_ipad @ utf8 ''P67890'') = test_key_ipad @
     [80, 54, 55, 56, 57, 48, 128, 0, 0, 0, 0, 0, 0, 0, 0, 0, 0, 0, 0, 0, 0, 0, 0, 0, 0, 0,
       0, 0, 0, 0, 0, 0, 0, 0, 0, 0, 0, 0, 0, 0, 0, 0, 0, 0, 0, 0, 0, 0, 0, 0, 0, 0, 0, 0, 0,
       0, 0, 0, 0, 0, 0, 0, 2, 48]"
    by (simp add: sha_pad_def utf8_def be_bytes8_def test_key_ipad_def replicate_numeral)
  have o: "sha_pad (test_key_opad @ state_bytes (4250561976, 2824048521, 1359738859, 1459784618, 2974366701, 309796404, 482089731, 3092672514)) = test_key_opad @
     [253, 90, 109, 184, 168, 83, 143, 137, 81, 11, 247, 235, 87, 2, 139, 170, 177, 73, 59,
       237, 18, 119, 30, 52, 28, 188, 27, 3, 184, 86, 112, 2, 128, 0, 0, 0, 0, 0, 0, 0, 0, 0,
       0, 0, 0, 0, 0, 0, 0, 0, 0, 0, 0, 0, 0, 0, 0, 0, 0, 0, 0, 0, 3, 0]"
    by (simp add: sha_pad_def be_bytes8_def test_key_opad_def replicate_numeral)
  have a: "sha256 (test_key_ipad @ utf8 ''P67890'') = (4250561976, 2824048521, 1359738859, 1459784618, 2974366701, 309796404, 482089731, 3092672514)"
    unfolding sha256_def i
    by (simp add: sha_blocks_two test_key_pad_length compress_test_key_ipad
        compress_inner_other)
  have b: "sha256 (test_key_opad @ state_bytes (4250561976, 2824048521, 1359738859, 1459784618, 2974366701, 309796404, 482089731, 3092672514)) = (1992863348, 3826661775, 3854904538, 1401630621, 4105248757, 3133237732, 3290273008, 4065059701)"
    unfolding sha256_def o
    by (simp add: sha_blocks_two test_key_pad_length compress_test_key_opad
        compress_outer_other)
  show ?thesis
    unfolding hmacHex_def hmac_sha256_def Let_def test_key_pads a b
    by (simp add: hex8_def padStart_def toStringRadix.simps digitChar_def)
qed

lemma digitChar_hex: "d < 16 \<Longrightarrow> digitChar d \<in> set ''0123456789abcdef''"
proof -
  assume "d < 16"
  then have "d \<in> set [0, 1, 2, 3, 4, 5, 6, 7, 8, 9, 10, 11, 12, 13, 14, 15]"
    by (rule below_16_cases)
  then show ?thesis by (auto simp add: digitChar_def)
qed

lemma toStringRadix_hex: "set (toStringRadix 16 n) \<subseteq> set ''0123456789abcdef''"
proof (induction n rule: less_induct)
  case (less n)
  show ?case
  proof (cases "n < 16")
    case True
    then show ?thesis
      using digitChar_hex [of n] by (subst toStringRadix.simps) simp
  next
    case False
    then have "n div 16 < n" by simp
    then have "set (toStringRadix 16 (n div 16)) \<subseteq> set ''0123456789abcdef''"
      by (rule less.IH)
    moreover have "digitChar (n mod 16) \<in> set ''0123456789abcdef''"
      by (rule digitChar_hex) simp
    ultimately show ?thesis
      using False by (subst toStringRadix.simps) simp
  qed
qed

lemma toStringRadix_length: "n < 16 ^ Suc k \<Longrightarrow> length (toStringRadix 16 n) \<le> Suc k"
proof (induction k arbitrary: n)
  case 0
  then show ?case by (subst toStringRadix.simps) simp
next
  case (Suc k)
  show ?case
  proof (cases "n < 16")
    case True
    then show ?thesis by (subst toStringRadix.simps) simp
  next
    case False
    have "n div 16 < 16 ^ Suc k"
      using Suc.prems by (simp add: less_mult_imp_div_less mult.commute)
    then have "length (toStringRadix 16 (n div 16)) \<le> Suc k"
      by (rule Suc.IH)
    then show ?thesis
      using False by (subst toStringRadix.simps) simp
  qed
qed

lemma hex8_format:
  assumes "w < 4294967296"
  shows "length (hex8 w) = 8" and "set (hex8 w) \<subseteq> set ''0123456789abcdef''"
proof -
  have "w < 16 ^ Suc 7" using assms by simp
  then have "length (toStringRadix 16 w) \<le> Suc 7" by (rule toStringRadix_length)
  then show "length (hex8 w) = 8" by (simp add: hex8_def padStart_def)
  show "set (hex8 w) \<subseteq> set ''0123456789abcdef''"
    using toStringRadix_hex [of w] by (auto simp add: hex8_def padStart_def)
qed

lemma add32_below: "add32 a b < 4294967296"
  by (simp add: add32_def)

lemma compress_hex:
  "length (state_hex (compress h block)) = 64
   \<and> set (state_hex (compress h block)) \<subseteq> set ''0123456789abcdef''"
proof -
  obtain a b c d e f g i where h: "h = (a, b, c, d, e, f, g, i)"
    by (metis surj_pair)
  obtain a' b' c' d' e' f' g' i'
    where r: "sha_rounds sha_K (be_words block) h = (a', b', c', d', e', f', g', i')"
    by (metis surj_pair)
  have "compress h block = (add32 a a', add32 b b', add32 c c', add32 d d', add32 e e',
    add32 f f', add32 g g', add32 i i')"
    unfolding compress_def r unfolding h by simp
  then show ?thesis
    using hex8_format [OF add32_below] by simp
qed

lemma sha_H0_hex:
  "length (state_hex sha_H0) = 64 \<and> set (state_hex sha_H0) \<subseteq> set ''0123456789abcdef''"
  by (simp add: sha_H0_def hex8_def padStart_def toStringRadix.simps digitChar_def)

lemma sha_blocks_hex:
  "length (state_hex h) = 64 \<and> set (state_hex h) \<subseteq> set ''0123456789abcdef'' \<Longrightarrow>
     length (state_hex (sha_blocks h bs)) = 64
     \<and> set (state_hex (sha_blocks h bs)) \<subseteq> set ''0123456789abcdef''"
proof (induction h bs rule: sha_blocks.induct)
  case (1 h bs)
  show ?case
  proof (cases "length bs < 64")
    case True
    then have "sha_blocks h bs = h" by (subst sha_blocks.simps) simp
    then show ?thesis using "1.prems" by simp
  next
    case False
    then have eq: "sha_blocks h bs = sha_blocks (compress h (take 64 bs)) (drop 64 bs)"
      by (subst sha_blocks.simps) simp
    show ?thesis
      unfolding eq using False compress_hex by (intro "1.IH") simp_all
  qed
qed

lemma hmacHex_format:
  "length (hmacHex key data) = 64 \<and> set (hmacHex key data) \<subseteq> set ''0123456789abcdef''"
  unfolding hmacHex_def hmac_sha256_def Let_def sha256_def
  using sha_H0_hex by (rule sha_blocks_hex)

text \<open>
  \<open>maskPayload\<close> starts with \<open>if (!payload) return payload\<close>; an array and an object are never
  falsy, and the last equation of the definition returns every other value unchanged.
\<close>
lemma maskPayload_falsy: "falsy payload \<Longrightarrow> maskPayload masterKey payload = Inr payload"
  by (cases payload) (simp_all add: falsy_def)

lemma lowerChar_B: "lowerChar CHR ''B'' = CHR ''b''"
  by code_simp

lemma barcode_payload_keys:
  "\<not> isSecretKey ''patronBarcode''" "isPiiKey ''patronBarcode''" "isSecretKey ''password''"
  by (simp_all add: isSecretKey_def isPiiKey_def toLowerCase_def lowerChar_B startsWith_def
      substring_def) (simp_all add: lowerChar_def)

lemma maskPayload_barcode_payload:
  "maskPayload masterKey (barcode_payload barcode password) =
     map_sum id (\<lambda>m. barcode_payload m ''********'') (mask_data masterKey barcode)"
  by (cases "mask_data masterKey barcode") (simp_all add: barcode_payload_def barcode_payload_keys)

lemma mask_data_configured:
  "k \<noteq> [] \<Longrightarrow> b \<noteq> [] \<Longrightarrow>
     mask_data (Some k) b = Inr (''MASKED_'' @ substring (hmacHex k b) 0 16)"
  by (simp add: mask_data_def truthy_def)

lemma mask_data_test_key:
  "mask_data (Some ''test-master-key'') ''P12345'' = Inr ''MASKED_19348f995edf8cfc''"
  "mask_data (Some ''test-master-key'') ''MASKED_19348f995edf8cfc'' = Inr ''MASKED_065ac0ce124de55a''"
  "mask_data (Some ''test-master-key'') ''P67890'' = Inr ''MASKED_76c8ae74e416398f''"
  by (simp_all add: mask_data_def truthy_def hmacHex_barcode hmacHex_masked hmacHex_other
      substring_def)

lemma finite_masks: "finite (range (\<lambda>data. mask_data (Some k) data))"
proof -
  have "range (\<lambda>data. mask_data (Some k) data)
      \<subseteq> insert (Inl MasterKeyMissing) (Inr ` {m. length m \<le> 23})"
    by (auto simp add: mask_data_def substring_def)
  moreover have "finite (insert (Inl MasterKeyMissing :: error + string) (Inr ` {m. length m \<le> 23}))"
    using finite_lists_length_le [of "UNIV :: char set" 23] by simp
  ultimately show ?thesis by (rule finite_subset)
qed

text \<open>
  A mask has 16 hex digits and there are infinitely many strings: whatever the key, two
  distinct inputs of \<open>mask\<close> have the same result.
\<close>
lemma mask_data_not_injective: "\<not> inj (mask_data (Some k))"
proof
  assume "inj (mask_data (Some k))"
  moreover have "finite (range (mask_data (Some k)))"
    using finite_masks [of k] by simp
  ultimately have "finite (UNIV :: string set)" by (rule finite_imageD [rotated])
  then show False by (simp add: infinite_UNIV_listI)
qed

text \<open>
  Claim C10. \<open>mask\<close> returns the empty string unchanged whatever the master key is, also when
  the variable is unset. It fails with \<open>MasterKeyMissing\<close> exactly when the input is not empty
  and the key is unset or empty, and returns a value in every other case.
\<close>
theorem mask_empty_never_fails:
  "mask_data masterKey [] = Inr []
   \<and> mask_data None [] = Inr []
   \<and> (mask_data masterKey data = Inl MasterKeyMissing)
       = (data \<noteq> [] \<and> (masterKey = None \<or> masterKey = Some []))
   \<and> (\<exists>masked. mask_data masterKey data = Inr masked)
       = (data = [] \<or> (\<exists>k. masterKey = Some k \<and> k \<noteq> []))"
  by (cases masterKey) (auto simp add: mask_data_def truthy_def)

text \<open>
  Claim C6, as amended. With a non-empty master key \<open>k\<close>, masking the payload
  \<open>{patronBarcode: b, password: p}\<close> with a non-empty barcode replaces the barcode by \<open>MASKED_\<close>
  and the first 16 hex digits of the HMAC-SHA-256 of \<open>b\<close> under \<open>k\<close>, and the password by
  \<open>********\<close>. Masking the result again keeps \<open>********\<close> and replaces the barcode by the mask of
  the masked barcode: the HMAC is taken of the string \<open>MASKED_...\<close>, no mask is kept as it is.
  Under the key \<open>test-master-key\<close> the barcodes \<open>P12345\<close> and \<open>P67890\<close> have distinct masks.
\<close>
theorem mask_payload_twice:
  assumes "k \<noteq> []" and "b \<noteq> []"
    and "once = ''MASKED_'' @ substring (hmacHex k b) 0 16"
    and "twice = ''MASKED_'' @ substring (hmacHex k once) 0 16"
  shows "maskPayload (Some k) (barcode_payload b p) = Inr (barcode_payload once ''********'')
    \<and> maskPayload (Some k) (barcode_payload once ''********'')
        = Inr (barcode_payload twice ''********'')
    \<and> length (substring (hmacHex k b) 0 16) = 16
    \<and> set (substring (hmacHex k b) 0 16) \<subseteq> set ''0123456789abcdef''
    \<and> mask_data (Some ''test-master-key'') ''P12345''
        \<noteq> mask_data (Some ''test-master-key'') ''P67890''"
proof -
  have "set (take 16 (hmacHex k b)) \<subseteq> set ''0123456789abcdef''"
    using hmacHex_format [of k b] set_take_subset [of 16 "hmacHex k b"] by blast
  moreover have "length (take 16 (hmacHex k b)) = 16"
    using hmacHex_format [of k b] by simp
  ultimately show ?thesis
    using assms
    by (simp add: maskPayload_barcode_payload mask_data_configured mask_data_test_key
        substring_def)
qed

theorem mask_payload_twice_witness:
  "maskPayload (Some ''test-master-key'') (barcode_payload ''P12345'' ''x'')
     = Inr (barcode_payload ''MASKED_19348f995edf8cfc'' ''********'')
   \<and> maskPayload (Some ''test-master-key'') (barcode_payload ''MASKED_19348f995edf8cfc'' ''********'')
     = Inr (barcode_payload ''MASKED_065ac0ce124de55a'' ''********'')"
  using mask_payload_twice [of "''test-master-key''" "''P12345''" "''MASKED_19348f995edf8cfc''"
      "''MASKED_065ac0ce124de55a''" "''x''"]
  by (simp add: hmacHex_barcode hmacHex_masked substring_def)

text \<open>
  Claim C6 as the specification words it fails: under the key \<open>test-master-key\<close>, masking the
  masked payload changes the barcode from \<open>MASKED_19348f995edf8cfc\<close> to
  \<open>MASKED_065ac0ce124de55a\<close>.
\<close>
theorem remask_changes_barcode_counterexample:
  "maskPayload (Some ''test-master-key'')
      (JObject [(''patronBarcode'', JString ''P12345''), (''password'', JString ''x'')])
     = Inr (JObject [(''patronBarcode'', JString ''MASKED_19348f995edf8cfc''),
                     (''password'', JString ''********'')])
   \<and> maskPayload (Some ''test-master-key'')
      (JObject [(''patronBarcode'', JString ''MASKED_19348f995edf8cfc''),
                (''password'', JString ''********'')])
     = Inr (JObject [(''patronBarcode'', JString ''MASKED_065ac0ce124de55a''),
                     (''password'', JString ''********'')])
   \<and> ''MASKED_065ac0ce124de55a'' \<noteq> ''MASKED_19348f995edf8cfc''"
  using maskPayload_barcode_payload [of "Some ''test-master-key''" "''P12345''" "''x''"]
    maskPayload_barcode_payload [of "Some ''test-master-key''" "''MASKED_19348f995edf8cfc''"
      "''********''"]
  by (simp add: mask_data_test_key barcode_payload_def)

end
